theory Spec2Isabelle
  imports Main "HOL-Library.Word" "HOL-Library.Multiset"
    "HOL-Library.Char_ord" "HOL-Library.List_Lexorder"
begin

unbundle bit_operations_syntax

section \<open>The hash functions of \<open>hashlib\<close>\<close>

text \<open>
  \<open>identity.py\<close> derives addresses with \<open>hashlib.sha256(...).hexdigest()\<close> and fills
  \<open>payload_sha512\<close> with \<open>hashlib.sha512(...).hexdigest()\<close>. Both are modelled as the
  functions of FIPS 180-4 on byte strings (\<open>bytes\<close> is a list of 8-bit words), with the
  digest rendered as lower-case hexadecimal. A Python \<open>str\<close> is modelled by an Isabelle
  \<open>string\<close> holding its UTF-8 encoding, one \<open>char\<close> per byte, so \<open>value.encode()\<close>
  turns each \<open>char\<close> into the byte of the same value. The bytes \<open>0x2E\<close> of the
  dot and \<open>0x20\<close> of the space never occur inside a multi-byte UTF-8 sequence, so
  splitting the encoded string agrees with splitting the code points, and the byte-wise
  lexicographic order agrees with the order of the code points.
\<close>

type_synonym byte = "8 word"
type_synonym u32 = "32 word"
type_synonym u64 = "64 word"

definition encode :: "string \<Rightarrow> byte list" where
  "encode s = map of_char s"

definition hex_digit :: "nat \<Rightarrow> char" where
  "hex_digit n = ''0123456789abcdef'' ! n"

subsection \<open>SHA-256\<close>

definition rotr32 :: "nat \<Rightarrow> u32 \<Rightarrow> u32" where
  "rotr32 n x = drop_bit n x OR push_bit (32 - n) x"

definition Ch32 :: "u32 \<Rightarrow> u32 \<Rightarrow> u32 \<Rightarrow> u32" where
  "Ch32 x y z = (x AND y) XOR (NOT x AND z)"

definition Maj32 :: "u32 \<Rightarrow> u32 \<Rightarrow> u32 \<Rightarrow> u32" where
  "Maj32 x y z = (x AND y) XOR (x AND z) XOR (y AND z)"

definition bsig0_32 :: "u32 \<Rightarrow> u32" where
  "bsig0_32 x = rotr32 2 x XOR rotr32 13 x XOR rotr32 22 x"

definition bsig1_32 :: "u32 \<Rightarrow> u32" where
  "bsig1_32 x = rotr32 6 x XOR rotr32 11 x XOR rotr32 25 x"

definition ssig0_32 :: "u32 \<Rightarrow> u32" where
  "ssig0_32 x = rotr32 7 x XOR rotr32 18 x XOR drop_bit 3 x"

definition ssig1_32 :: "u32 \<Rightarrow> u32" where
  "ssig1_32 x = rotr32 17 x XOR rotr32 19 x XOR drop_bit 10 x"

definition K256 :: "u32 list" where
  "K256 = [
   0x428A2F98, 0x71374491, 0xB5C0FBCF, 0xE9B5DBA5, 0x3956C25B, 0x59F111F1,
   0x923F82A4, 0xAB1C5ED5, 0xD807AA98, 0x12835B01, 0x243185BE, 0x550C7DC3,
   0x72BE5D74, 0x80DEB1FE, 0x9BDC06A7, 0xC19BF174, 0xE49B69C1, 0xEFBE4786,
   0xFC19DC6, 0x240CA1CC, 0x2DE92C6F, 0x4A7484AA, 0x5CB0A9DC, 0x76F988DA,
   0x983E5152, 0xA831C66D, 0xB00327C8, 0xBF597FC7, 0xC6E00BF3, 0xD5A79147,
   0x6CA6351, 0x14292967, 0x27B70A85, 0x2E1B2138, 0x4D2C6DFC, 0x53380D13,
   0x650A7354, 0x766A0ABB, 0x81C2C92E, 0x92722C85, 0xA2BFE8A1, 0xA81A664B,
   0xC24B8B70, 0xC76C51A3, 0xD192E819, 0xD6990624, 0xF40E3585, 0x106AA070,
   0x19A4C116, 0x1E376C08, 0x2748774C, 0x34B0BCB5, 0x391C0CB3, 0x4ED8AA4A,
   0x5B9CCA4F, 0x682E6FF3, 0x748F82EE, 0x78A5636F, 0x84C87814, 0x8CC70208,
   0x90BEFFFA, 0xA4506CEB, 0xBEF9A3F7, 0xC67178F2]"

type_synonym state256 = "u32 \<times> u32 \<times> u32 \<times> u32 \<times> u32 \<times> u32 \<times> u32 \<times> u32"

definition H256 :: state256 where
  "H256 = (0x6A09E667, 0xBB67AE85, 0x3C6EF372, 0xA54FF53A,
           0x510E527F, 0x9B05688C, 0x1F83D9AB, 0x5BE0CD19)"

text \<open>Padding of a message of \<open>n\<close> bytes: \<open>0x80\<close>, zeros up to 56 modulo 64, and the
  bit length as 8 big-endian bytes.\<close>

definition pad256 :: "nat \<Rightarrow> byte list" where
  "pad256 n = 0x80 # replicate ((119 - n mod 64) mod 64) 0
       @ map (\<lambda>i. ucast (drop_bit (8 * i) (of_nat (8 * n) :: u64))) [7, 6, 5, 4, 3, 2, 1, 0]"

fun be_words32 :: "byte list \<Rightarrow> u32 list" where
  "be_words32 (a # b # c # d # bs) =
     (push_bit 24 (ucast a) OR push_bit 16 (ucast b) OR push_bit 8 (ucast c) OR ucast d)
       # be_words32 bs"
| "be_words32 _ = []"

fun schedule256 :: "nat \<Rightarrow> u32 list \<Rightarrow> u32 list" where
  "schedule256 0 w = w"
| "schedule256 (Suc n) w =
     schedule256 n (w @ [ssig1_32 (w ! (length w - 2)) + w ! (length w - 7)
                         + ssig0_32 (w ! (length w - 15)) + w ! (length w - 16)])"

fun round256 :: "state256 \<Rightarrow> u32 \<times> u32 \<Rightarrow> state256" where
  "round256 (a, b, c, d, e, f, g, h) (k, w) =
     (let t1 = h + bsig1_32 e + Ch32 e f g + k + w;
          t2 = bsig0_32 a + Maj32 a b c
      in (t1 + t2, a, b, c, d + t1, e, f, g))"

fun add256 :: "state256 \<Rightarrow> state256 \<Rightarrow> state256" where
  "add256 (a, b, c, d, e, f, g, h) (a', b', c', d', e', f', g', h') =
     (a + a', b + b', c + c', d + d', e + e', f + f', g + g', h + h')"

definition compress256 :: "state256 \<Rightarrow> u32 list \<Rightarrow> state256" where
  "compress256 hs m = add256 hs (foldl round256 hs (zip K256 (schedule256 48 m)))"

fun blocks :: "nat \<Rightarrow> 'a list \<Rightarrow> 'a list list" where
  "blocks 0 ws = []"
| "blocks (Suc n) ws = take 16 ws # blocks n (drop 16 ws)"

definition sha256 :: "byte list \<Rightarrow> state256" where
  "sha256 m = (let ws = be_words32 (m @ pad256 (length m))
               in foldl compress256 H256 (blocks (length ws div 16) ws))"

definition hex32 :: "u32 \<Rightarrow> string" where
  "hex32 w = map (\<lambda>i. hex_digit (unat (drop_bit (4 * i) w AND 0xF))) [7, 6, 5, 4, 3, 2, 1, 0]"

fun hexdigest256 :: "state256 \<Rightarrow> string" where
  "hexdigest256 (a, b, c, d, e, f, g, h) =
     hex32 a @ hex32 b @ hex32 c @ hex32 d @ hex32 e @ hex32 f @ hex32 g @ hex32 h"

definition sha256_hex :: "byte list \<Rightarrow> string" where
  "sha256_hex m = hexdigest256 (sha256 m)"

subsection \<open>SHA-512\<close>

definition rotr64 :: "nat \<Rightarrow> u64 \<Rightarrow> u64" where
  "rotr64 n x = drop_bit n x OR push_bit (64 - n) x"

definition Ch64 :: "u64 \<Rightarrow> u64 \<Rightarrow> u64 \<Rightarrow> u64" where
  "Ch64 x y z = (x AND y) XOR (NOT x AND z)"

definition Maj64 :: "u64 \<Rightarrow> u64 \<Rightarrow> u64 \<Rightarrow> u64" where
  "Maj64 x y z = (x AND y) XOR (x AND z) XOR (y AND z)"

definition bsig0_64 :: "u64 \<Rightarrow> u64" where
  "bsig0_64 x = rotr64 28 x XOR rotr64 34 x XOR rotr64 39 x"

definition bsig1_64 :: "u64 \<Rightarrow> u64" where
  "bsig1_64 x = rotr64 14 x XOR rotr64 18 x XOR rotr64 41 x"

definition ssig0_64 :: "u64 \<Rightarrow> u64" where
  "ssig0_64 x = rotr64 1 x XOR rotr64 8 x XOR drop_bit 7 x"

definition ssig1_64 :: "u64 \<Rightarrow> u64" where
  "ssig1_64 x = rotr64 19 x XOR rotr64 61 x XOR drop_bit 6 x"

definition K512 :: "u64 list" where
  "K512 = [
   0x428A2F98D728AE22, 0x7137449123EF65CD, 0xB5C0FBCFEC4D3B2F, 0xE9B5DBA58189DBBC,
   0x3956C25BF348B538, 0x59F111F1B605D019, 0x923F82A4AF194F9B, 0xAB1C5ED5DA6D8118,
   0xD807AA98A3030242, 0x12835B0145706FBE, 0x243185BE4EE4B28C, 0x550C7DC3D5FFB4E2,
   0x72BE5D74F27B896F, 0x80DEB1FE3B1696B1, 0x9BDC06A725C71235, 0xC19BF174CF692694,
   0xE49B69C19EF14AD2, 0xEFBE4786384F25E3, 0xFC19DC68B8CD5B5, 0x240CA1CC77AC9C65,
   0x2DE92C6F592B0275, 0x4A7484AA6EA6E483, 0x5CB0A9DCBD41FBD4, 0x76F988DA831153B5,
   0x983E5152EE66DFAB, 0xA831C66D2DB43210, 0xB00327C898FB213F, 0xBF597FC7BEEF0EE4,
   0xC6E00BF33DA88FC2, 0xD5A79147930AA725, 0x6CA6351E003826F, 0x142929670A0E6E70,
   0x27B70A8546D22FFC, 0x2E1B21385C26C926, 0x4D2C6DFC5AC42AED, 0x53380D139D95B3DF,
   0x650A73548BAF63DE, 0x766A0ABB3C77B2A8, 0x81C2C92E47EDAEE6, 0x92722C851482353B,
   0xA2BFE8A14CF10364, 0xA81A664BBC423001, 0xC24B8B70D0F89791, 0xC76C51A30654BE30,
   0xD192E819D6EF5218, 0xD69906245565A910, 0xF40E35855771202A, 0x106AA07032BBD1B8,
   0x19A4C116B8D2D0C8, 0x1E376C085141AB53, 0x2748774CDF8EEB99, 0x34B0BCB5E19B48A8,
   0x391C0CB3C5C95A63, 0x4ED8AA4AE3418ACB, 0x5B9CCA4F7763E373, 0x682E6FF3D6B2B8A3,
   0x748F82EE5DEFB2FC, 0x78A5636F43172F60, 0x84C87814A1F0AB72, 0x8CC702081A6439EC,
   0x90BEFFFA23631E28, 0xA4506CEBDE82BDE9, 0xBEF9A3F7B2C67915, 0xC67178F2E372532B,
   0xCA273ECEEA26619C, 0xD186B8C721C0C207, 0xEADA7DD6CDE0EB1E, 0xF57D4F7FEE6ED178,
   0x6F067AA72176FBA, 0xA637DC5A2C898A6, 0x113F9804BEF90DAE, 0x1B710B35131C471B,
   0x28DB77F523047D84, 0x32CAAB7B40C72493, 0x3C9EBE0A15C9BEBC, 0x431D67C49C100D4C,
   0x4CC5D4BECB3E42B6, 0x597F299CFC657E2A, 0x5FCB6FAB3AD6FAEC, 0x6C44198C4A475817]"

type_synonym state512 = "u64 \<times> u64 \<times> u64 \<times> u64 \<times> u64 \<times> u64 \<times> u64 \<times> u64"

definition H512 :: state512 where
  "H512 = (
   0x6A09E667F3BCC908, 0xBB67AE8584CAA73B, 0x3C6EF372FE94F82B, 0xA54FF53A5F1D36F1,
   0x510E527FADE682D1, 0x9B05688C2B3E6C1F, 0x1F83D9ABFB41BD6B, 0x5BE0CD19137E2179)"

definition pad512 :: "nat \<Rightarrow> byte list" where
  "pad512 n = 0x80 # replicate ((239 - n mod 128) mod 128) 0
       @ map (\<lambda>i. ucast (drop_bit (8 * i) (of_nat (8 * n) :: 128 word)))
           [15, 14, 13, 12, 11, 10, 9, 8, 7, 6, 5, 4, 3, 2, 1, 0]"

fun be_words64 :: "byte list \<Rightarrow> u64 list" where
  "be_words64 (a # b # c # d # e # f # g # h # bs) =
     (push_bit 56 (ucast a) OR push_bit 48 (ucast b) OR push_bit 40 (ucast c)
        OR push_bit 32 (ucast d) OR push_bit 24 (ucast e) OR push_bit 16 (ucast f)
        OR push_bit 8 (ucast g) OR ucast h) # be_words64 bs"
| "be_words64 _ = []"

fun schedule512 :: "nat \<Rightarrow> u64 list \<Rightarrow> u64 list" where
  "schedule512 0 w = w"
| "schedule512 (Suc n) w =
     schedule512 n (w @ [ssig1_64 (w ! (length w - 2)) + w ! (length w - 7)
                         + ssig0_64 (w ! (length w - 15)) + w ! (length w - 16)])"

fun round512 :: "state512 \<Rightarrow> u64 \<times> u64 \<Rightarrow> state512" where
  "round512 (a, b, c, d, e, f, g, h) (k, w) =
     (let t1 = h + bsig1_64 e + Ch64 e f g + k + w;
          t2 = bsig0_64 a + Maj64 a b c
      in (t1 + t2, a, b, c, d + t1, e, f, g))"

fun add512 :: "state512 \<Rightarrow> state512 \<Rightarrow> state512" where
  "add512 (a, b, c, d, e, f, g, h) (a', b', c', d', e', f', g', h') =
     (a + a', b + b', c + c', d + d', e + e', f + f', g + g', h + h')"

definition compress512 :: "state512 \<Rightarrow> u64 list \<Rightarrow> state512" where
  "compress512 hs m = add512 hs (foldl round512 hs (zip K512 (schedule512 64 m)))"

definition sha512 :: "byte list \<Rightarrow> state512" where
  "sha512 m = (let ws = be_words64 (m @ pad512 (length m))
               in foldl compress512 H512 (blocks (length ws div 16) ws))"

definition hex64 :: "u64 \<Rightarrow> string" where
  "hex64 w = map (\<lambda>i. hex_digit (unat (drop_bit (4 * i) w AND 0xF)))
               [15, 14, 13, 12, 11, 10, 9, 8, 7, 6, 5, 4, 3, 2, 1, 0]"

fun hexdigest512 :: "state512 \<Rightarrow> string" where
  "hexdigest512 (a, b, c, d, e, f, g, h) =
     hex64 a @ hex64 b @ hex64 c @ hex64 d @ hex64 e @ hex64 f @ hex64 g @ hex64 h"

definition sha512_hex :: "byte list \<Rightarrow> string" where
  "sha512_hex m = hexdigest512 (sha512 m)"

section \<open>Python strings and lists\<close>

datatype error = IndexError | AssertionError | Base64Error | DecodeError

text \<open>\<open>xs[i]\<close> for a literal index \<open>i \<ge> 0\<close>: raises \<open>IndexError\<close> out of range.\<close>

definition getitem :: "'a list \<Rightarrow> nat \<Rightarrow> error + 'a" where
  "getitem xs i = (if i < length xs then Inr (xs ! i) else Inl IndexError)"

text \<open>
  \<open>s.split(sep, maxsplit)\<close> for a one-character separator: the text before each of the
  first \<open>maxsplit\<close> separators, then the rest of the string, unsplit. The result always has
  at least one element. A negative \<open>maxsplit\<close> (the default \<open>-1\<close>) means no limit; a string
  holds no more separators than it has characters.
\<close>

fun split_n :: "nat \<Rightarrow> char \<Rightarrow> string \<Rightarrow> string list" where
  "split_n 0 sep s = [s]"
| "split_n (Suc k) sep s =
     (if sep \<in> set s
      then takeWhile (\<lambda>x. x \<noteq> sep) s # split_n k sep (tl (dropWhile (\<lambda>x. x \<noteq> sep) s))
      else [s])"

definition str_split :: "char \<Rightarrow> int \<Rightarrow> string \<Rightarrow> string list" where
  "str_split sep maxsplit s =
     split_n (if maxsplit < 0 then length s else nat maxsplit) sep s"

section \<open>Messages\<close>

text \<open>
  Modelled from the spec: the protobuf message classes imported from
  \<open>sawtooth_cli.protobuf\<close> (\<open>Policy\<close>, \<open>Role\<close>, \<open>IdentityPayload\<close>, \<open>TransactionHeader\<close>,
  \<open>Transaction\<close>, \<open>BatchHeader\<close>, \<open>Batch\<close>) are not part of the source file. Their fields
  are those of the spec's data model, which are the keyword arguments of the constructor
  calls in \<open>identity.py\<close>.
\<close>

datatype Policy_Type = PERMIT_KEY | DENY_KEY

record Entry =
  type :: Policy_Type
  key :: string

record Policy =
  name :: string
  entries :: "Entry list"

record Role =
  name :: string
  policy_name :: string

datatype IdentityPayload_Type = POLICY | ROLE

record IdentityPayload =
  type :: IdentityPayload_Type
  data :: "byte list"

record TransactionHeader =
  signer_pubkey :: string
  family_name :: string
  family_version :: string
  inputs :: "string list"
  outputs :: "string list"
  dependencies :: "string list"
  payload_encoding :: string
  payload_sha512 :: string
  batcher_pubkey :: string
  nonce :: "byte list"

record Transaction =
  header :: "byte list"
  payload :: "byte list"
  header_signature :: string

record BatchHeader =
  signer_pubkey :: string
  transaction_ids :: "string list"

record Batch =
  header :: "byte list"
  header_signature :: string
  transactions :: "Transaction list"

text \<open>
  The libraries behind the messages are parameters of the model: the protobuf
  serialisers and parsers, \<open>sawtooth_signing.sign\<close> and \<open>base64.b64decode\<close>. Every
  theorem below holds for all of them.
\<close>

record extern =
  Policy_SerializeToString :: "Policy \<Rightarrow> byte list"
  Role_SerializeToString :: "Role \<Rightarrow> byte list"
  IdentityPayload_SerializeToString :: "IdentityPayload \<Rightarrow> byte list"
  TransactionHeader_SerializeToString :: "TransactionHeader \<Rightarrow> byte list"
  BatchHeader_SerializeToString :: "BatchHeader \<Rightarrow> byte list"
  sign :: "byte list \<Rightarrow> string \<Rightarrow> string"
  b64decode :: "string \<Rightarrow> error + byte list"
  PolicyList_ParseFromString :: "byte list \<Rightarrow> error + Policy list"
  RoleList_ParseFromString :: "byte list \<Rightarrow> error + Role list"

section \<open>Address derivation\<close>

definition IDENTITY_NAMESPACE :: string where
  "IDENTITY_NAMESPACE = ''00001d''"

definition MIN_PRINT_WIDTH :: int where
  "MIN_PRINT_WIDTH = 15"

definition MAX_KEY_PARTS :: int where
  "MAX_KEY_PARTS = 4"

definition FIRST_ADDRESS_PART_SIZE :: nat where
  "FIRST_ADDRESS_PART_SIZE = 14"

definition ADDRESS_PART_SIZE :: nat where
  "ADDRESS_PART_SIZE = 16"

definition POLICY_PREFIX :: string where
  "POLICY_PREFIX = ''00''"

definition ROLE_PREFIX :: string where
  "ROLE_PREFIX = ''01''"

definition EMPTY_PART :: string where
  "EMPTY_PART = take ADDRESS_PART_SIZE (sha256_hex (encode ''''))"

definition to_hash :: "string \<Rightarrow> string" where
  "to_hash value = sha256_hex (encode value)"

definition role_to_address :: "string \<Rightarrow> error + string" where
  "role_to_address role_name =
     (let key_parts = str_split CHR ''.'' (MAX_KEY_PARTS - 1) role_name
      in case getitem key_parts 0 of
           Inl e \<Rightarrow> Inl e
         | Inr part0 \<Rightarrow>
             let addr_parts = [take FIRST_ADDRESS_PART_SIZE (to_hash part0)];
                 addr_parts = addr_parts
                   @ map (\<lambda>x. take ADDRESS_PART_SIZE (to_hash x)) (drop 1 key_parts);
                 addr_parts = addr_parts
                   @ replicate (nat (MAX_KEY_PARTS - int (length addr_parts))) EMPTY_PART
             in Inr (IDENTITY_NAMESPACE @ ROLE_PREFIX @ concat addr_parts))"

definition policy_to_address :: "string \<Rightarrow> string" where
  "policy_to_address policy_name' =
     IDENTITY_NAMESPACE @ POLICY_PREFIX @ take 62 (to_hash policy_name')"

section \<open>Transactions and batches\<close>

text \<open>
  The loop of \<open>_create_policy_txn\<close> over the rules, with the list \<open>entries\<close> it appends
  to. \<open>rule[0]\<close> and \<open>rule[1]\<close> raise \<open>IndexError\<close> out of range, which ends the function.
\<close>

fun policy_entries :: "string list \<Rightarrow> Entry list \<Rightarrow> error + Entry list" where
  "policy_entries [] entries' = Inr entries'"
| "policy_entries (rule # rules) entries' =
     (let rule = str_split CHR '' '' (- 1) rule
      in case getitem rule 0 of
           Inl e \<Rightarrow> Inl e
         | Inr rule0 \<Rightarrow>
             if rule0 = ''PERMIT_KEY'' then
               (case getitem rule 1 of
                  Inl e \<Rightarrow> Inl e
                | Inr rule1 \<Rightarrow>
                    policy_entries rules
                      (entries' @ [\<lparr>Entry.type = PERMIT_KEY, key = rule1\<rparr>]))
             else if rule0 = ''DENY_KEY'' then
               (case getitem rule 1 of
                  Inl e \<Rightarrow> Inl e
                | Inr rule1 \<Rightarrow>
                    policy_entries rules
                      (entries' @ [\<lparr>Entry.type = DENY_KEY, key = rule1\<rparr>]))
             else policy_entries rules entries')"

text \<open>
  The nonce is \<open>time.time().hex().encode()\<close> in the source: the reading of the clock is an
  argument of the model.
\<close>

definition create_policy_txn ::
  "extern \<Rightarrow> string \<Rightarrow> string \<Rightarrow> string \<Rightarrow> string list \<Rightarrow> byte list
     \<Rightarrow> error + Transaction" where
  "create_policy_txn X pubkey signing_key policy_name' rules now =
     (case policy_entries rules [] of
        Inl e \<Rightarrow> Inl e
      | Inr entries' \<Rightarrow>
          let policy = \<lparr>Policy.name = policy_name', entries = entries'\<rparr>;
              payload = \<lparr>IdentityPayload.type = POLICY,
                         data = Policy_SerializeToString X policy\<rparr>;
              policy_address = policy_to_address policy_name';
              header = \<lparr>TransactionHeader.signer_pubkey = pubkey,
                        family_name = ''sawtooth_identity'',
                        family_version = ''1.0'',
                        inputs = [policy_address],
                        outputs = [policy_address],
                        dependencies = [],
                        payload_encoding = ''application/protobuf'',
                        payload_sha512 =
                          sha512_hex (IdentityPayload_SerializeToString X payload),
                        batcher_pubkey = pubkey,
                        nonce = now\<rparr>;
              header_bytes = TransactionHeader_SerializeToString X header;
              signature = sign X header_bytes signing_key
          in Inr \<lparr>Transaction.header = header_bytes,
                   payload = IdentityPayload_SerializeToString X payload,
                   header_signature = signature\<rparr>)"

definition create_role_txn ::
  "extern \<Rightarrow> string \<Rightarrow> string \<Rightarrow> string \<Rightarrow> string \<Rightarrow> byte list
     \<Rightarrow> error + Transaction" where
  "create_role_txn X pubkey signing_key role_name policy_name' now =
     (let role = \<lparr>Role.name = role_name, policy_name = policy_name'\<rparr>;
          payload = \<lparr>IdentityPayload.type = ROLE,
                     data = Role_SerializeToString X role\<rparr>;
          policy_address = policy_to_address policy_name'
      in case role_to_address role_name of
           Inl e \<Rightarrow> Inl e
         | Inr role_address \<Rightarrow>
             let header = \<lparr>TransactionHeader.signer_pubkey = pubkey,
                           family_name = ''sawtooth_identity'',
                           family_version = ''1.0'',
                           inputs = [policy_address, role_address],
                           outputs = [role_address],
                           dependencies = [],
                           payload_encoding = ''application/protobuf'',
                           payload_sha512 =
                             sha512_hex (IdentityPayload_SerializeToString X payload),
                           batcher_pubkey = pubkey,
                           nonce = now\<rparr>;
                 header_bytes = TransactionHeader_SerializeToString X header;
                 signature = sign X header_bytes signing_key
             in Inr \<lparr>Transaction.header = header_bytes,
                      payload = IdentityPayload_SerializeToString X payload,
                      header_signature = signature\<rparr>)"

definition create_batch ::
  "extern \<Rightarrow> string \<Rightarrow> string \<Rightarrow> Transaction list \<Rightarrow> Batch" where
  "create_batch X pubkey signing_key transactions' =
     (let txn_ids = map Transaction.header_signature transactions';
          batch_header = BatchHeader_SerializeToString X
            \<lparr>BatchHeader.signer_pubkey = pubkey, transaction_ids = txn_ids\<rparr>
      in \<lparr>Batch.header = batch_header,
           header_signature = sign X batch_header signing_key,
           transactions = transactions'\<rparr>)"

section \<open>Listing\<close>

text \<open>
  \<open>len\<close> and slices of a \<open>str\<close> count code points: in the UTF-8 encoding these are the
  bytes that are not continuation bytes \<open>10xxxxxx\<close>.
\<close>

definition continuation :: "char \<Rightarrow> bool" where
  "continuation c = (128 \<le> (of_char c :: nat) \<and> (of_char c :: nat) < 192)"

definition str_len :: "string \<Rightarrow> int" where
  "str_len s = int (length (filter (\<lambda>c. \<not> continuation c) s))"

text \<open>\<open>s[:n]\<close> for \<open>n \<ge> 0\<close>: the first \<open>n\<close> code points.\<close>

fun str_take :: "nat \<Rightarrow> string \<Rightarrow> string" where
  "str_take n [] = []"
| "str_take n (c # cs) =
     (if continuation c then c # str_take n cs
      else (case n of 0 \<Rightarrow> [] | Suc m \<Rightarrow> c # str_take m cs))"

text \<open>\<open>d[k] = v\<close> on a dictionary, kept as the list of its items in insertion order.\<close>

fun dict_set :: "('k \<times> 'v) list \<Rightarrow> 'k \<Rightarrow> 'v \<Rightarrow> ('k \<times> 'v) list" where
  "dict_set [] k v = [(k, v)]"
| "dict_set ((k', v') # d) k v =
     (if k' = k then (k', v) # d else (k', v') # dict_set d k v)"

text \<open>
  Modelled from the spec: \<open>Policy.Type.Name\<close>, the protobuf name of an entry type, is not
  part of the source file. The rule grammar of the spec names the two types \<open>PERMIT_KEY\<close>
  and \<open>DENY_KEY\<close>, as the enum values used in \<open>_create_policy_txn\<close> do.
\<close>

fun Policy_Type_Name :: "Policy_Type \<Rightarrow> string" where
  "Policy_Type_Name PERMIT_KEY = ''PERMIT_KEY''"
| "Policy_Type_Name DENY_KEY = ''DENY_KEY''"

text \<open>
  What a listing hands to its output: the argument of each \<open>print\<close> call, the rows given
  to \<open>csv.writer.writerow\<close>, or the snapshot given to \<open>json.dumps\<close> with \<open>sort_keys=True\<close>
  or to \<open>yaml.dump\<close>, both of which emit a mapping in the order of its keys.
\<close>

datatype listing =
    Printed "string list"
  | Csv "string list list"
  | Json string "(string \<times> string) list"
  | Yaml string "(string \<times> string) list"

text \<open>The loops over \<open>state_values\<close>; each element is the \<open>'data'\<close> field of a state entry.\<close>

fun collect_policies :: "extern \<Rightarrow> string list \<Rightarrow> Policy list \<Rightarrow> error + Policy list" where
  "collect_policies X [] printable_policies = Inr printable_policies"
| "collect_policies X (state_value # state_values) printable_policies =
     (case b64decode X state_value of
        Inl e \<Rightarrow> Inl e
      | Inr decoded \<Rightarrow>
          (case PolicyList_ParseFromString X decoded of
             Inl e \<Rightarrow> Inl e
           | Inr policies \<Rightarrow>
               collect_policies X state_values (printable_policies @ policies)))"

fun collect_roles :: "extern \<Rightarrow> string list \<Rightarrow> Role list \<Rightarrow> error + Role list" where
  "collect_roles X [] printable_roles = Inr printable_roles"
| "collect_roles X (state_value # state_values) printable_roles =
     (case b64decode X state_value of
        Inl e \<Rightarrow> Inl e
      | Inr decoded \<Rightarrow>
          (case RoleList_ParseFromString X decoded of
             Inl e \<Rightarrow> Inl e
           | Inr roles \<Rightarrow> collect_roles X state_values (printable_roles @ roles)))"

definition print_width :: "int \<Rightarrow> string \<Rightarrow> int" where
  "print_width tty_width nm =
     (let width = tty_width - str_len nm - 3
      in if width > MIN_PRINT_WIDTH then width else MIN_PRINT_WIDTH)"

definition clip :: "int \<Rightarrow> string \<Rightarrow> string" where
  "clip width s = (if str_len s > width then str_take (nat width) s @ ''...'' else s)"

definition print_policy :: "int \<Rightarrow> Policy \<Rightarrow> string" where
  "print_policy tty_width policy =
     (let width = print_width tty_width (Policy.name policy);
          value = foldl (\<lambda>value entry.
                    value @ clip width (''    '' @ Policy_Type_Name (Entry.type entry)
                                          @ '' '' @ key entry) @ [CHR 0x0A])
                    (''Entries:'' @ [CHR 0x0A]) (entries policy)
      in Policy.name policy @ '': '' @ [CHR 0x0A] @ ''  '' @ value)"

definition csv_policy :: "Policy \<Rightarrow> string list" where
  "csv_policy policy =
     foldl (\<lambda>output entry.
              output @ [Policy_Type_Name (Entry.type entry) @ '' '' @ key entry])
       [Policy.name policy] (entries policy)"

definition snapshot_policies :: "Policy list \<Rightarrow> (string \<times> string) list" where
  "snapshot_policies printable_policies =
     foldl (\<lambda>output policy.
              dict_set output (Policy.name policy)
                (foldl (\<lambda>value entry.
                          value @ (Policy_Type_Name (Entry.type entry) @ '' '' @ key entry)
                            @ '' '')
                   ''Entries: '' (entries policy)))
       [] printable_policies"

definition do_identity_policy_list ::
  "extern \<Rightarrow> string \<Rightarrow> string list \<Rightarrow> string \<Rightarrow> int \<Rightarrow> error + listing" where
  "do_identity_policy_list X head state_values format tty_width =
     (case collect_policies X state_values [] of
        Inl e \<Rightarrow> Inl e
      | Inr printable_policies \<Rightarrow>
          let printable_policies = sort_key Policy.name printable_policies
          in if format = ''default'' then
               Inr (Printed (map (print_policy tty_width) printable_policies))
             else if format = ''csv'' then
               Inr (Csv ([''POLICY NAME'', ''ENTRIES''] # map csv_policy printable_policies))
             else if format = ''json'' \<or> format = ''yaml'' then
               (let output = snapshot_policies printable_policies
                in if format = ''json'' then Inr (Json head (sort_key fst output))
                   else Inr (Yaml head (sort_key fst output)))
             else Inl AssertionError)"

definition print_role :: "int \<Rightarrow> Role \<Rightarrow> string" where
  "print_role tty_width role =
     (let width = print_width tty_width (Role.name role);
          value = clip width (policy_name role)
      in Role.name role @ '': '' @ value)"

definition snapshot_roles :: "Role list \<Rightarrow> (string \<times> string) list" where
  "snapshot_roles printable_roles =
     foldl (\<lambda>output role. dict_set output (Role.name role) (policy_name role))
       [] printable_roles"

definition do_identity_role_list ::
  "extern \<Rightarrow> string \<Rightarrow> string list \<Rightarrow> string \<Rightarrow> int \<Rightarrow> error + listing" where
  "do_identity_role_list X head state_values format tty_width =
     (case collect_roles X state_values [] of
        Inl e \<Rightarrow> Inl e
      | Inr printable_roles \<Rightarrow>
          let printable_roles = sort_key Role.name printable_roles
          in if format = ''default'' then
               Inr (Printed (map (print_role tty_width) printable_roles))
             else if format = ''csv'' then
               Inr (Csv ([''KEY'', ''VALUE'']
                      # map (\<lambda>role. [Role.name role, policy_name role]) printable_roles))
             else if format = ''json'' \<or> format = ''yaml'' then
               (let roles = snapshot_roles printable_roles
                in if format = ''json'' then Inr (Json head (sort_key fst roles))
                   else Inr (Yaml head (sort_key fst roles)))
             else Inl AssertionError)"

section \<open>Notions used to state the properties\<close>

definition hex_chars :: string where
  "hex_chars = ''0123456789abcdef''"

definition is_hex :: "string \<Rightarrow> bool" where
  "is_hex s = list_all (\<lambda>c. c \<in> set hex_chars) s"

text \<open>
  The derivation of a role address in the words of the specification: split the name at
  every dot; if that gives more than four parts, the fourth part is the rest of the name,
  dots included; hash the first part to 14 hexadecimal characters and every further part
  to 16; fill up to four parts with the first 16 characters of the hash of the empty
  string; put the namespace and the role prefix in front.
\<close>

fun split_all :: "char \<Rightarrow> string \<Rightarrow> string list" where
  "split_all sep [] = [[]]"
| "split_all sep (c # cs) =
     (if c = sep then [] # split_all sep cs
      else (case split_all sep cs of [] \<Rightarrow> [[c]] | p # ps \<Rightarrow> (c # p) # ps))"

fun join :: "char \<Rightarrow> string list \<Rightarrow> string" where
  "join sep [] = []"
| "join sep [p] = p"
| "join sep (p # q # ps) = p @ sep # join sep (q # ps)"

definition spec_parts :: "string \<Rightarrow> string list" where
  "spec_parts nm =
     (let ps = split_all CHR ''.'' nm
      in if length ps \<le> 4 then ps else take 3 ps @ [join CHR ''.'' (drop 3 ps)])"

definition role_address_spec :: "string \<Rightarrow> string" where
  "role_address_spec nm =
     (case spec_parts nm of
        [] \<Rightarrow> []
      | first_part # more_parts \<Rightarrow>
          ''00001d'' @ ''01''
            @ take 14 (sha256_hex (encode first_part))
            @ concat (map (\<lambda>p. take 16 (sha256_hex (encode p))) more_parts)
            @ concat (replicate (4 - length (first_part # more_parts))
                        (take 16 (sha256_hex (encode '''')))))"

text \<open>
  The four component slots of a role name, absent ones as \<open>None\<close>, and the four segments
  of an address: characters 8 to 21, then three runs of 16.
\<close>

definition parts4 :: "string \<Rightarrow> string option list" where
  "parts4 nm =
     (let ps = str_split CHR ''.'' 3 nm
      in map Some ps @ replicate (4 - length ps) None)"

definition segment :: "nat \<Rightarrow> string \<Rightarrow> string" where
  "segment i addr =
     (if i = 0 then take 14 (drop 8 addr) else take 16 (drop (22 + 16 * (i - 1)) addr))"

fun slot_hash :: "nat \<Rightarrow> string option \<Rightarrow> string" where
  "slot_hash i None = EMPTY_PART"
| "slot_hash i (Some p) = take (if i = 0 then 14 else 16) (to_hash p)"

text \<open>
  A rule is a key rule when its first space-separated token is \<open>PERMIT_KEY\<close> or
  \<open>DENY_KEY\<close>; it is complete when a second token follows. \<open>rule_entry\<close> is the entry of
  a complete key rule.
\<close>

definition is_key_rule :: "string \<Rightarrow> bool" where
  "is_key_rule rule =
     (case str_split CHR '' '' (- 1) rule of
        [] \<Rightarrow> False
      | tok # _ \<Rightarrow> tok = ''PERMIT_KEY'' \<or> tok = ''DENY_KEY'')"

definition complete_rule :: "string \<Rightarrow> bool" where
  "complete_rule rule =
     (if is_key_rule rule then 2 \<le> length (str_split CHR '' '' (- 1) rule) else True)"

definition rule_entry :: "string \<Rightarrow> Entry option" where
  "rule_entry rule =
     (case str_split CHR '' '' (- 1) rule of
        tok # k # _ \<Rightarrow>
          if tok = ''PERMIT_KEY'' then Some \<lparr>Entry.type = PERMIT_KEY, key = k\<rparr>
          else if tok = ''DENY_KEY'' then Some \<lparr>Entry.type = DENY_KEY, key = k\<rparr>
          else None
      | _ \<Rightarrow> None)"

text \<open>
  A listing presents a sequence of names when its printed texts begin with these names,
  one after the other; when its rows after the heading have them as first column; when
  the keys of its snapshot are these names, each once.
\<close>

fun presents :: "string list \<Rightarrow> listing \<Rightarrow> bool" where
  "presents ns (Printed texts) = list_all2 (\<lambda>t n. take (length n) t = n) texts ns"
| "presents ns (Csv rows) = (map (take 1) (tl rows) = map (\<lambda>n. [n]) ns)"
| "presents ns (Json h items) = (map fst items = remdups ns)"
| "presents ns (Yaml h items) = (map fst items = remdups ns)"

text \<open>
  A sample instance of the libraries, to run the model on concrete inputs: a message is
  serialised to the bytes of one of its text fields, a signature is the key, and a state
  blob decodes to one message named by the blob.
\<close>

definition sample_extern :: extern where
  "sample_extern =
     \<lparr>Policy_SerializeToString = (\<lambda>p. encode (Policy.name p)),
      Role_SerializeToString = (\<lambda>r. encode (Role.name r)),
      IdentityPayload_SerializeToString = (\<lambda>p. data p),
      TransactionHeader_SerializeToString = (\<lambda>h. encode (payload_sha512 h)),
      BatchHeader_SerializeToString = (\<lambda>h. encode (concat (transaction_ids h))),
      sign = (\<lambda>m k. k),
      b64decode = (\<lambda>s. Inr (encode s)),
      PolicyList_ParseFromString =
        (\<lambda>b. Inr [\<lparr>Policy.name = map (\<lambda>x. char_of (unat x)) b, entries = []\<rparr>]),
      RoleList_ParseFromString =
        (\<lambda>b. Inr [\<lparr>Role.name = map (\<lambda>x. char_of (unat x)) b, policy_name = ''p''\<rparr>])\<rparr>"

section \<open>Digests are 64 and 128 hexadecimal characters\<close>

lemma is_hex_Nil [simp]: "is_hex []"
  by (simp add: is_hex_def)

lemma is_hex_append [simp]: "is_hex (xs @ ys) = (is_hex xs \<and> is_hex ys)"
  by (simp add: is_hex_def)

lemma is_hex_take: "is_hex xs \<Longrightarrow> is_hex (take n xs)"
  unfolding is_hex_def list_all_iff by (meson in_set_takeD)

lemma hex_digit_is_hex: "n < 16 \<Longrightarrow> hex_digit n \<in> set hex_chars"
  unfolding hex_digit_def hex_chars_def by (rule nth_mem) simp

lemma nibble32: "unat ((x :: u32) AND 0xF) < 16"
proof -
  have "unat (x AND 15) \<le> unat (15 :: u32)"
    by (rule word_and_le1 [THEN word_le_nat_alt [THEN iffD1]])
  then show ?thesis by simp
qed

lemma nibble64: "unat ((x :: u64) AND 0xF) < 16"
proof -
  have "unat (x AND 15) \<le> unat (15 :: u64)"
    by (rule word_and_le1 [THEN word_le_nat_alt [THEN iffD1]])
  then show ?thesis by simp
qed

lemma length_hex32 [simp]: "length (hex32 w) = 8"
  by (simp add: hex32_def)

lemma is_hex_hex32 [simp]: "is_hex (hex32 w)"
  by (simp add: hex32_def is_hex_def hex_digit_is_hex nibble32)

lemma length_sha256_hex [simp]: "length (sha256_hex m) = 64"
  by (cases "sha256 m" rule: hexdigest256.cases) (simp add: sha256_hex_def)

lemma is_hex_sha256_hex [simp]: "is_hex (sha256_hex m)"
  by (cases "sha256 m" rule: hexdigest256.cases) (simp add: sha256_hex_def)

lemma length_hex64 [simp]: "length (hex64 w) = 16"
  by (simp add: hex64_def)

lemma is_hex_hex64 [simp]: "is_hex (hex64 w)"
  by (simp add: hex64_def is_hex_def hex_digit_is_hex nibble64)

lemma length_sha512_hex [simp]: "length (sha512_hex m) = 128"
  by (cases "sha512 m" rule: hexdigest512.cases) (simp add: sha512_hex_def)

lemma is_hex_sha512_hex [simp]: "is_hex (sha512_hex m)"
  by (cases "sha512 m" rule: hexdigest512.cases) (simp add: sha512_hex_def)

lemma length_to_hash [simp]: "length (to_hash v) = 64"
  by (simp add: to_hash_def)

lemma is_hex_to_hash [simp]: "is_hex (to_hash v)"
  by (simp add: to_hash_def)

lemma EMPTY_PART_to_hash: "EMPTY_PART = take 16 (to_hash [])"
  by (simp add: EMPTY_PART_def to_hash_def ADDRESS_PART_SIZE_def)

lemma length_EMPTY_PART [simp]: "length EMPTY_PART = 16"
  by (simp add: EMPTY_PART_to_hash)

lemma is_hex_EMPTY_PART [simp]: "is_hex EMPTY_PART"
  by (simp add: EMPTY_PART_to_hash is_hex_take)

section \<open>Splitting\<close>

lemma split_n_not_Nil [simp]: "split_n k sep s \<noteq> []"
  by (cases k) auto

lemma split_n_no_sep: "sep \<notin> set s \<Longrightarrow> split_n k sep s = [s]"
  by (cases k) auto

lemma split_n_Nil [simp]: "split_n k sep [] = [[]]"
  by (cases k) auto

lemma count_list_first_sep:
  "sep \<in> set s \<Longrightarrow>
   count_list s sep = Suc (count_list (tl (dropWhile (\<lambda>x. x \<noteq> sep) s)) sep)"
  by (induction s) auto

lemma takeWhile_snoc_sep:
  "takeWhile (\<lambda>x. x \<noteq> sep) (s @ [sep]) = takeWhile (\<lambda>x. x \<noteq> sep) s"
  by (induction s) auto

lemma dropWhile_snoc_sep:
  "tl (dropWhile (\<lambda>x. x \<noteq> sep) (s @ [sep])) =
     (if sep \<in> set s then tl (dropWhile (\<lambda>x. x \<noteq> sep) s) @ [sep] else [])"
  by (induction s) auto

lemma takeWhile_no_sep: "sep \<notin> set s \<Longrightarrow> takeWhile (\<lambda>x. x \<noteq> sep) s = s"
  by (induction s) auto

lemma length_split_n: "length (split_n k sep s) = Suc (min k (count_list s sep))"
proof (induction k arbitrary: s)
  case 0
  show ?case by simp
next
  case (Suc k)
  show ?case
  proof (cases "sep \<in> set s")
    case False
    then show ?thesis by (simp add: count_list_0_iff)
  next
    case True
    with Suc.IH[of "tl (dropWhile (\<lambda>x. x \<noteq> sep) s)"] show ?thesis
      by (simp add: count_list_first_sep)
  qed
qed

lemma split_n_append_sep:
  "count_list s sep < k \<Longrightarrow> split_n k sep (s @ [sep]) = split_n k sep s @ [[]]"
proof (induction k arbitrary: s)
  case 0
  then show ?case by simp
next
  case (Suc k)
  show ?case
  proof (cases "sep \<in> set s")
    case False
    then show ?thesis
      by (simp add: takeWhile_snoc_sep dropWhile_snoc_sep takeWhile_no_sep)
  next
    case True
    with Suc.prems have "count_list (tl (dropWhile (\<lambda>x. x \<noteq> sep) s)) sep < k"
      by (simp add: count_list_first_sep)
    from Suc.IH[OF this] True show ?thesis
      by (simp add: takeWhile_snoc_sep dropWhile_snoc_sep)
  qed
qed

lemma split_all_not_Nil [simp]: "split_all sep s \<noteq> []"
  by (induction s) (auto split: list.splits)

lemma split_all_unfold:
  "split_all sep s =
     (if sep \<in> set s
      then takeWhile (\<lambda>x. x \<noteq> sep) s # split_all sep (tl (dropWhile (\<lambda>x. x \<noteq> sep) s))
      else [s])"
  by (induction s) (auto split: list.splits)

lemma join_Cons_Cons: "join sep ((c # p) # ps) = c # join sep (p # ps)"
  by (cases ps) auto

lemma join_split_all [simp]: "join sep (split_all sep s) = s"
proof (induction s)
  case Nil
  show ?case by simp
next
  case (Cons c cs)
  then show ?case
    by (cases "split_all sep cs") (auto simp: join_Cons_Cons)
qed

lemma split_n_split_all:
  "split_n k sep s =
     (let ps = split_all sep s
      in if length ps \<le> Suc k then ps else take k ps @ [join sep (drop k ps)])"
proof (induction k arbitrary: s)
  case 0
  obtain p ps where ps: "split_all sep s = p # ps"
    by (cases "split_all sep s") auto
  have "join sep (p # ps) = s"
    using join_split_all[of sep s] by (simp add: ps)
  then show ?case by (cases ps) (auto simp: ps Let_def)
next
  case (Suc k)
  show ?case
  proof (cases "sep \<in> set s")
    case False
    then show ?thesis by (simp add: split_all_unfold[of sep s])
  next
    case True
    then show ?thesis
      by (simp add: split_all_unfold[of sep s] Suc.IH Let_def)
  qed
qed

section \<open>The shape of a role address\<close>

lemma role_to_address_parts:
  assumes "split_n 3 CHR ''.'' nm = p0 # rest"
  shows "role_to_address nm =
           Inr (''00001d01'' @ take 14 (to_hash p0)
                  @ concat (map (\<lambda>x. take 16 (to_hash x)) rest)
                  @ concat (replicate (3 - length rest) EMPTY_PART))"
  using assms
  by (simp add: role_to_address_def str_split_def getitem_def Let_def MAX_KEY_PARTS_def
        FIRST_ADDRESS_PART_SIZE_def ADDRESS_PART_SIZE_def IDENTITY_NAMESPACE_def
        ROLE_PREFIX_def nat_diff_distrib')


text \<open>Two digests, computed by the model: those of the empty string and of \<open>a\<close>.\<close>

lemma sha256_hex_empty:
  "sha256_hex (encode '''')
     = ''e3b0c44298fc1c149afbf4c8996fb92427ae41e4649b934ca495991b7852b855''"
  by code_simp

lemma sha256_hex_a:
  "sha256_hex (encode ''a'')
     = ''ca978112ca1bbdcafac231b39a23dc4da786eff8147c4e72b9807785afee48bb''"
  by code_simp

lemma EMPTY_PART_value: "EMPTY_PART = ''e3b0c44298fc1c14''"
  by (simp add: EMPTY_PART_def ADDRESS_PART_SIZE_def sha256_hex_empty)


section \<open>Addresses\<close>

lemma length_concat_hashes [simp]:
  "length (concat (map (\<lambda>x. take 16 (to_hash x)) ps)) = 16 * length ps"
  by (induction ps) auto

lemma is_hex_concat_hashes [simp]:
  "is_hex (concat (map (\<lambda>x. take 16 (to_hash x)) ps))"
  by (induction ps) (simp_all add: is_hex_take)

lemma length_concat_padding [simp]:
  "length (concat (replicate n EMPTY_PART)) = 16 * n"
  by (induction n) auto

lemma is_hex_concat_padding [simp]: "is_hex (concat (replicate n EMPTY_PART))"
  by (induction n) simp_all

lemma is_hex_role_prefix [simp]: "is_hex ''00001d01''"
  by (simp add: is_hex_def hex_chars_def)

lemma spec_parts_split_n: "spec_parts nm = split_n 3 CHR ''.'' nm"
  by (simp add: spec_parts_def split_n_split_all Let_def eval_nat_numeral)

lemma split_n_shape:
  obtains p0 rest where "split_n 3 sep nm = p0 # rest" "length rest = min 3 (count_list nm sep)"
proof -
  obtain p0 rest where ps: "split_n 3 sep nm = p0 # rest"
    by (cases "split_n 3 sep nm") auto
  have "length (split_n 3 sep nm) = Suc (min 3 (count_list nm sep))"
    by (rule length_split_n)
  with ps have "length rest = min 3 (count_list nm sep)" by simp
  with ps show thesis by (rule that)
qed

lemma role_to_address_spec: "role_to_address nm = Inr (role_address_spec nm)"
proof -
  obtain p0 rest where ps: "split_n 3 CHR ''.'' nm = p0 # rest"
    by (rule split_n_shape)
  show ?thesis
    by (simp add: role_to_address_parts[OF ps] role_address_spec_def spec_parts_split_n ps
          to_hash_def EMPTY_PART_def ADDRESS_PART_SIZE_def)
qed

lemma role_to_address_format:
  "\<exists>body. role_to_address nm = Inr (''00001d'' @ ''01'' @ body) \<and> length body = 62 \<and> is_hex body"
proof -
  obtain p0 rest where ps: "split_n 3 CHR ''.'' nm = p0 # rest"
    and len: "length rest = min 3 (count_list nm CHR ''.'')"
    by (rule split_n_shape)
  let ?body = "take 14 (to_hash p0) @ concat (map (\<lambda>x. take 16 (to_hash x)) rest)
                  @ concat (replicate (3 - length rest) EMPTY_PART)"
  have "role_to_address nm = Inr (''00001d'' @ ''01'' @ ?body)"
    by (simp add: role_to_address_parts[OF ps])
  moreover have "length ?body = 62" using len by simp
  moreover have "is_hex ?body" by (simp add: is_hex_take)
  ultimately show ?thesis by blast
qed

lemma role_to_address_no_dot:
  assumes "CHR ''.'' \<notin> set nm"
  shows "role_to_address nm =
           Inr (''00001d01'' @ take 14 (sha256_hex (encode nm))
                  @ concat (replicate 3 (take 16 (sha256_hex (encode '''')))))"
proof -
  have "split_n 3 CHR ''.'' nm = nm # []"
    using assms by (rule split_n_no_sep)
  from role_to_address_parts[OF this] show ?thesis
    by (simp add: to_hash_def EMPTY_PART_def ADDRESS_PART_SIZE_def)
qed

text \<open>
  C1. \<open>_role_to_address\<close> computes the address the specification describes: the name
  split at dots into at most four parts, the fourth taking the rest of the name with its
  dots; 14 hexadecimal characters of the SHA-256 digest of the first part and 16 of every
  further part; missing parts filled with the first 16 characters of the digest of the
  empty string; behind \<open>00001d\<close> and \<open>01\<close>, a body of 62 hexadecimal characters. A name
  without dots gives one hashed part and three paddings, as the name \<open>a\<close> does.
\<close>

theorem role_address_derivation:
  "role_to_address nm = Inr (role_address_spec nm)
   \<and> (\<exists>body. role_to_address nm = Inr (''00001d'' @ ''01'' @ body)
          \<and> length body = 62 \<and> is_hex body)
   \<and> (CHR ''.'' \<notin> set nm \<longrightarrow>
        role_to_address nm =
          Inr (''00001d01'' @ take 14 (sha256_hex (encode nm))
                 @ concat (replicate 3 (take 16 (sha256_hex (encode ''''))))))
   \<and> role_to_address ''a'' =
        Inr (''00001d01'' @ take 14 (sha256_hex (encode ''a''))
               @ concat (replicate 3 (take 16 (sha256_hex (encode '''')))))
   \<and> role_to_address ''a'' =
        Inr ''00001d01ca978112ca1bbde3b0c44298fc1c14e3b0c44298fc1c14e3b0c44298fc1c14''"
proof -
  have "role_to_address ''a'' =
        Inr ''00001d01ca978112ca1bbde3b0c44298fc1c14e3b0c44298fc1c14e3b0c44298fc1c14''"
    by (simp add: role_to_address_no_dot sha256_hex_a sha256_hex_empty eval_nat_numeral)
  then show ?thesis
    using role_to_address_spec[of nm] role_to_address_format[of nm]
      role_to_address_no_dot[of nm] role_to_address_no_dot[of "''a''"]
    by simp
qed

theorem role_address_derivation_witness:
  "CHR ''.'' \<notin> set ''org''
   \<and> role_to_address ''org'' =
        Inr (''00001d01'' @ take 14 (sha256_hex (encode ''org''))
               @ concat (replicate 3 (take 16 (sha256_hex (encode '''')))))"
  using role_address_derivation[of "''org''", THEN conjunct2, THEN conjunct2, THEN conjunct1]
  by simp

text \<open>
  C2. For a non-empty name, \<open>_policy_to_address\<close> is \<open>00001d\<close>, \<open>00\<close> and the first 62
  characters of the SHA-256 digest of the whole name: 70 hexadecimal characters
  starting with \<open>00001d00\<close>. It is a function of the name alone: it takes no clock, key
  or library.
\<close>

theorem policy_address_format:
  assumes "n \<noteq> []"
  shows "policy_to_address n = ''00001d'' @ ''00'' @ take 62 (sha256_hex (encode n))
         \<and> length (policy_to_address n) = 70
         \<and> is_hex (policy_to_address n)
         \<and> take 8 (policy_to_address n) = ''00001d00''"
proof -
  have eq: "policy_to_address n = ''00001d'' @ ''00'' @ take 62 (sha256_hex (encode n))"
    by (simp add: policy_to_address_def IDENTITY_NAMESPACE_def POLICY_PREFIX_def to_hash_def)
  have "is_hex (''00001d'' @ ''00'')"
    by (simp add: is_hex_def hex_chars_def)
  then have "is_hex (policy_to_address n)"
    unfolding eq append_assoc[symmetric] by (simp only: is_hex_append is_hex_take is_hex_sha256_hex)
  then show ?thesis by (simp add: eq)
qed

theorem policy_address_format_witness:
  "''org.marketing'' \<noteq> []
   \<and> policy_to_address ''org.marketing''
       = ''00001d'' @ ''00'' @ take 62 (sha256_hex (encode ''org.marketing''))
   \<and> length (policy_to_address ''org.marketing'') = 70
   \<and> is_hex (policy_to_address ''org.marketing'')
   \<and> take 8 (policy_to_address ''org.marketing'') = ''00001d00''"
proof -
  have ne: "''org.marketing'' \<noteq> []" by simp
  from policy_address_format[OF ne] ne show ?thesis by blast
qed

text \<open>
  C8. A role name with at most two dots and the same name with one dot appended have the
  same address: the appended empty part is hashed to the padding it replaces.
\<close>

theorem trailing_dot_same_address:
  assumes "count_list nm CHR ''.'' \<le> 2"
  shows "role_to_address (nm @ ''.'') = role_to_address nm
         \<and> nm @ ''.'' \<noteq> nm
         \<and> take 16 (to_hash '''') = EMPTY_PART"
proof -
  obtain p0 rest where ps: "split_n 3 CHR ''.'' nm = p0 # rest"
    and len: "length rest = min 3 (count_list nm CHR ''.'')"
    by (rule split_n_shape)
  from assms len have len2: "length rest \<le> 2" by simp
  have "split_n 3 CHR ''.'' (nm @ [CHR ''.'']) = split_n 3 CHR ''.'' nm @ [[]]"
    using assms by (intro split_n_append_sep) simp
  then have ps': "split_n 3 CHR ''.'' (nm @ ''.'') = p0 # (rest @ [[]])"
    by (simp add: ps)
  have pad: "replicate (3 - length rest) EMPTY_PART
               = EMPTY_PART # replicate (2 - length rest) EMPTY_PART"
    using len2 by (simp add: Suc_diff_le flip: replicate_Suc)
  have "role_to_address (nm @ ''.'') = role_to_address nm"
    unfolding role_to_address_parts[OF ps] role_to_address_parts[OF ps'] pad
    using len2 by (simp add: EMPTY_PART_to_hash)
  then show ?thesis by (simp add: EMPTY_PART_to_hash)
qed

theorem trailing_dot_same_address_witness:
  "count_list ''org.dept'' CHR ''.'' \<le> 2
   \<and> role_to_address ''org.dept.'' = role_to_address ''org.dept''
   \<and> ''org.dept.'' \<noteq> ''org.dept''"
  using trailing_dot_same_address[of "''org.dept''"] by simp

lemma list_le3_cases:
  assumes "length xs \<le> 3"
  obtains "xs = []" | a where "xs = [a]" | a b where "xs = [a, b]"
    | a b c where "xs = [a, b, c]"
proof (cases xs)
  case Nil
  then show thesis by (rule that(1))
next
  case c1: (Cons a xs1)
  show thesis
  proof (cases xs1)
    case Nil
    with c1 show thesis by (intro that(2)) simp
  next
    case c2: (Cons b xs2)
    show thesis
    proof (cases xs2)
      case Nil
      with c1 c2 show thesis by (intro that(3)) simp
    next
      case c3: (Cons c xs3)
      with assms c1 c2 have "xs3 = []" by simp
      with c1 c2 c3 show thesis by (intro that(4)) simp
    qed
  qed
qed

lemma role_to_address_slots:
  "role_to_address nm =
     Inr (''00001d01'' @ slot_hash 0 (parts4 nm ! 0) @ slot_hash 1 (parts4 nm ! 1)
            @ slot_hash 2 (parts4 nm ! 2) @ slot_hash 3 (parts4 nm ! 3))
   \<and> parts4 nm ! 0 \<noteq> None"
proof -
  obtain p0 rest where ps: "split_n 3 CHR ''.'' nm = p0 # rest"
    and len: "length rest = min 3 (count_list nm CHR ''.'')"
    by (rule split_n_shape)
  have p4: "parts4 nm = Some p0 # map Some rest @ replicate (3 - length rest) None"
    by (simp add: parts4_def str_split_def ps)
  from len have "length rest \<le> 3" by simp
  then show ?thesis
    by (cases rest rule: list_le3_cases)
      (simp_all add: role_to_address_parts[OF ps] p4 numeral_3_eq_3 numeral_2_eq_2)
qed

lemma length_slot_hash:
  "length (slot_hash i x) = (if i = 0 \<and> x \<noteq> None then 14 else 16)"
  by (cases x) auto

lemma is_hex_slot_hash [simp]: "is_hex (slot_hash i x)"
  by (cases x) (auto simp: is_hex_take)

lemma segment_of_slots:
  assumes "length s0 = 14" "length s1 = 16" "length s2 = 16" "length s3 = 16"
  shows "segment 0 (''00001d01'' @ s0 @ s1 @ s2 @ s3) = s0"
    and "segment 1 (''00001d01'' @ s0 @ s1 @ s2 @ s3) = s1"
    and "segment 2 (''00001d01'' @ s0 @ s1 @ s2 @ s3) = s2"
    and "segment 3 (''00001d01'' @ s0 @ s1 @ s2 @ s3) = s3"
  using assms by (simp_all add: segment_def)

lemma role_segments:
  assumes "role_to_address nm = Inr a" "i < 4"
  shows "segment i a = slot_hash i (parts4 nm ! i)"
proof -
  let ?s = "\<lambda>k. slot_hash k (parts4 nm ! k)"
  from role_to_address_slots[of nm] assms(1)
  have a: "a = ''00001d01'' @ ?s 0 @ ?s 1 @ ?s 2 @ ?s 3" and p0: "parts4 nm ! 0 \<noteq> None"
    by simp_all
  have l: "length (?s 0) = 14" "length (?s 1) = 16" "length (?s 2) = 16" "length (?s 3) = 16"
    using p0 by (simp_all add: length_slot_hash)
  from assms(2) consider "i = 0" | "i = 1" | "i = 2" | "i = 3" by linarith
  then show ?thesis
    by cases (simp_all only: a segment_of_slots[OF l])
qed

lemma role_address_70:
  "\<exists>a. role_to_address nm = Inr a \<and> length a = 70 \<and> is_hex a \<and> take 8 a = ''00001d01''"
proof -
  obtain body where "role_to_address nm = Inr (''00001d'' @ ''01'' @ body)"
    "length body = 62" "is_hex body"
    using role_to_address_format[of nm] by blast
  then show ?thesis by (simp add: is_hex_def hex_chars_def)
qed

text \<open>
  C6. For a non-empty name the role address is 70 hexadecimal characters starting with
  \<open>00001d01\<close>. When two names differ in exactly one of their four component slots, their
  addresses agree in every other segment, and the segment of that slot differs exactly
  when the truncated digests of the two slot contents differ, an absent part counting as
  the padding constant.
\<close>

theorem role_address_segments:
  "(nm \<noteq> [] \<longrightarrow>
      (\<exists>a. role_to_address nm = Inr a \<and> length a = 70 \<and> is_hex a
            \<and> take 8 a = ''00001d01''))
   \<and> (role_to_address n1 = Inr a1 \<and> role_to_address n2 = Inr a2 \<and> i < 4
        \<and> parts4 n1 ! i \<noteq> parts4 n2 ! i
        \<and> (\<forall>j<4. j \<noteq> i \<longrightarrow> parts4 n1 ! j = parts4 n2 ! j)
      \<longrightarrow> (\<forall>j<4. j \<noteq> i \<longrightarrow> segment j a1 = segment j a2)
          \<and> ((segment i a1 \<noteq> segment i a2)
               = (slot_hash i (parts4 n1 ! i) \<noteq> slot_hash i (parts4 n2 ! i))))"
  using role_address_70[of nm] by (auto simp: role_segments)

theorem role_address_segments_witness:
  "''a.b'' \<noteq> []
   \<and> (\<exists>a. role_to_address ''a.b'' = Inr a \<and> length a = 70 \<and> is_hex a
          \<and> take 8 a = ''00001d01'')
   \<and> (\<exists>a1 a2. role_to_address ''a.b'' = Inr a1 \<and> role_to_address ''a.c'' = Inr a2
          \<and> parts4 ''a.b'' ! 1 \<noteq> parts4 ''a.c'' ! 1
          \<and> (\<forall>j<4. j \<noteq> 1 \<longrightarrow> parts4 ''a.b'' ! j = parts4 ''a.c'' ! j)
          \<and> (\<forall>j<4. j \<noteq> 1 \<longrightarrow> segment j a1 = segment j a2)
          \<and> ((segment 1 a1 \<noteq> segment 1 a2)
               = (take 16 (to_hash ''b'') \<noteq> take 16 (to_hash ''c''))))"
proof -
  obtain a1 where a1: "role_to_address ''a.b'' = Inr a1"
    using role_address_70[of "''a.b''"] by blast
  obtain a2 where a2: "role_to_address ''a.c'' = Inr a2"
    using role_address_70[of "''a.c''"] by blast
  have p1: "parts4 ''a.b'' = [Some ''a'', Some ''b'', None, None]"
    by (simp add: parts4_def str_split_def eval_nat_numeral)
  have p2: "parts4 ''a.c'' = [Some ''a'', Some ''c'', None, None]"
    by (simp add: parts4_def str_split_def eval_nat_numeral)
  have d: "parts4 ''a.b'' ! 1 \<noteq> parts4 ''a.c'' ! 1"
    by (simp add: p1 p2)
  have s: "\<forall>j<4. j \<noteq> 1 \<longrightarrow> parts4 ''a.b'' ! j = parts4 ''a.c'' ! j"
    by (simp add: p1 p2 nth_Cons')
  have ne: "''a.b'' \<noteq> []" by simp
  from role_address_segments[of "''a.b''" "''a.b''" a1 "''a.c''" a2 1] a1 a2 d s ne
  show ?thesis by (simp add: p1 p2)
qed

text \<open>
  The names \<open>a\<close> and \<open>a.\<close> differ in the second slot only, absent in one and empty in the
  other, and have the same address: the second segments do not differ.
\<close>

theorem role_address_segments_counterexample:
  "parts4 ''a'' = [Some ''a'', None, None, None]
   \<and> parts4 ''a.'' = [Some ''a'', Some '''', None, None]
   \<and> role_to_address ''a''
       = Inr ''00001d01ca978112ca1bbde3b0c44298fc1c14e3b0c44298fc1c14e3b0c44298fc1c14''
   \<and> role_to_address ''a.''
       = Inr ''00001d01ca978112ca1bbde3b0c44298fc1c14e3b0c44298fc1c14e3b0c44298fc1c14''
   \<and> segment 1 ''00001d01ca978112ca1bbde3b0c44298fc1c14e3b0c44298fc1c14e3b0c44298fc1c14''
       = ''e3b0c44298fc1c14''"
proof -
  have p1: "parts4 ''a'' = [Some ''a'', None, None, None]"
    by (simp add: parts4_def str_split_def eval_nat_numeral)
  have p2: "parts4 ''a.'' = [Some ''a'', Some '''', None, None]"
    by (simp add: parts4_def str_split_def eval_nat_numeral)
  have h: "take 14 (to_hash ''a'') = ''ca978112ca1bbd''"
    by (simp add: to_hash_def sha256_hex_a eval_nat_numeral)
  have a1: "role_to_address ''a''
       = Inr ''00001d01ca978112ca1bbde3b0c44298fc1c14e3b0c44298fc1c14e3b0c44298fc1c14''"
    using role_to_address_slots[of "''a''"] by (simp add: p1 h EMPTY_PART_value)
  have a2: "role_to_address ''a.''
       = Inr ''00001d01ca978112ca1bbde3b0c44298fc1c14e3b0c44298fc1c14e3b0c44298fc1c14''"
    using role_to_address_slots[of "''a.''"]
    by (simp add: p2 h EMPTY_PART_value flip: EMPTY_PART_to_hash)
  have "segment 1 ''00001d01ca978112ca1bbde3b0c44298fc1c14e3b0c44298fc1c14e3b0c44298fc1c14''
       = ''e3b0c44298fc1c14''"
    by (simp add: segment_def eval_nat_numeral)
  with p1 p2 a1 a2 show ?thesis by blast
qed

text \<open>
  Names with the same number of parts can collide too: digests cut to 14 characters take
  finitely many values, so two of the names \<open>a\<close>, \<open>aa\<close>, \<open>aaa\<close>, ... share an address.
\<close>

lemma role_address_not_injective:
  "\<exists>x y. x \<noteq> y \<and> CHR ''.'' \<notin> set x \<and> CHR ''.'' \<notin> set y
         \<and> role_to_address x = role_to_address y"
proof -
  let ?f = "\<lambda>n::nat. take 14 (to_hash (replicate n CHR ''a''))"
  have "range ?f \<subseteq> {xs. set xs \<subseteq> (UNIV :: char set) \<and> length xs = 14}"
    by auto
  moreover have "finite {xs. set xs \<subseteq> (UNIV :: char set) \<and> length xs = 14}"
    by (rule finite_lists_length_eq) simp
  ultimately have "finite (range ?f)"
    by (rule finite_subset)
  then have "\<not> inj ?f"
    using finite_imageD infinite_UNIV_nat by blast
  then obtain m n where mn: "m \<noteq> n" "?f m = ?f n"
    unfolding inj_on_def by blast
  let ?x = "replicate m CHR ''a''" and ?y = "replicate n CHR ''a''"
  have "?x \<noteq> ?y"
    using mn(1) by (metis length_replicate)
  moreover have "CHR ''.'' \<notin> set ?x" "CHR ''.'' \<notin> set ?y"
    by auto
  moreover have "role_to_address ?x = role_to_address ?y"
    using mn(2) by (simp add: role_to_address_no_dot to_hash_def)
  ultimately show ?thesis by blast
qed

section \<open>Policy rules\<close>

lemma str_split_not_Nil [simp]: "str_split sep m s \<noteq> []"
  by (simp add: str_split_def)

lemma policy_entries_skip:
  assumes "\<not> is_key_rule rule"
  shows "policy_entries (rule # rules) es = policy_entries rules es"
proof -
  obtain tok toks where s: "str_split CHR '' '' (- 1) rule = tok # toks"
    by (cases "str_split CHR '' '' (- 1) rule") auto
  with assms show ?thesis
    by (simp add: is_key_rule_def getitem_def)
qed

lemma policy_entries_incomplete:
  assumes "is_key_rule rule" "\<not> complete_rule rule"
  shows "policy_entries (rule # rules) es = Inl IndexError"
proof -
  obtain tok toks where s: "str_split CHR '' '' (- 1) rule = tok # toks"
    by (cases "str_split CHR '' '' (- 1) rule") auto
  with assms have "toks = []"
    by (cases toks) (simp_all add: complete_rule_def)
  with assms s show ?thesis
    by (auto simp: is_key_rule_def getitem_def)
qed

lemma policy_entries_complete:
  assumes "is_key_rule rule" "complete_rule rule"
  shows "\<exists>e. rule_entry rule = Some e
             \<and> policy_entries (rule # rules) es = policy_entries rules (es @ [e])"
proof -
  obtain tok toks where s: "str_split CHR '' '' (- 1) rule = tok # toks"
    by (cases "str_split CHR '' '' (- 1) rule") auto
  with assms obtain k ks where t: "toks = k # ks"
    by (cases toks) (simp_all add: complete_rule_def)
  from assms(1) s t show ?thesis
    by (auto simp: is_key_rule_def rule_entry_def getitem_def)
qed

lemma rule_entry_None:
  "\<not> is_key_rule rule \<Longrightarrow> rule_entry rule = None"
  by (auto simp: is_key_rule_def rule_entry_def split: list.splits)

declare policy_entries.simps(2) [simp del]

lemma policy_entries_filter:
  "policy_entries rules es = policy_entries (filter is_key_rule rules) es"
proof (induction rules arbitrary: es)
  case Nil
  show ?case by simp
next
  case (Cons rule rules)
  show ?case
  proof (cases "is_key_rule rule")
    case False
    then show ?thesis
      using Cons.IH by (simp add: policy_entries_skip)
  next
    case key: True
    show ?thesis
    proof (cases "complete_rule rule")
      case False
      with key show ?thesis
        by (simp add: policy_entries_incomplete)
    next
      case True
      from policy_entries_complete[OF key True] obtain e where
        "\<And>rs es. policy_entries (rule # rs) es = policy_entries rs (es @ [e])"
        by (metis option.inject)
      with key Cons.IH show ?thesis
        by simp
    qed
  qed
qed

lemma policy_entries_ok:
  "list_all complete_rule rules \<Longrightarrow>
   policy_entries rules es = Inr (es @ List.map_filter rule_entry rules)"
proof (induction rules arbitrary: es)
  case Nil
  show ?case by (simp add: List.map_filter_simps)
next
  case (Cons rule rules)
  then have c: "complete_rule rule" and cs: "list_all complete_rule rules" by simp_all
  show ?case
  proof (cases "is_key_rule rule")
    case False
    then show ?thesis
      using Cons.IH[OF cs] by (simp add: policy_entries_skip List.map_filter_simps rule_entry_None)
  next
    case True
    from policy_entries_complete[OF True c, of rules es] obtain e where
      e: "rule_entry rule = Some e"
      and "policy_entries (rule # rules) es = policy_entries rules (es @ [e])"
      by blast
    then show ?thesis
      using Cons.IH[OF cs, of "es @ [e]"] by (simp add: List.map_filter_simps)
  qed
qed

lemma policy_entries_error:
  "\<not> list_all complete_rule rules \<Longrightarrow> policy_entries rules es = Inl IndexError"
proof (induction rules arbitrary: es)
  case Nil
  then show ?case by simp
next
  case (Cons rule rules)
  show ?case
  proof (cases "is_key_rule rule")
    case False
    then have "complete_rule rule" by (simp add: complete_rule_def)
    with Cons.prems have "\<not> list_all complete_rule rules" by simp
    from Cons.IH[OF this] False show ?thesis
      by (simp add: policy_entries_skip)
  next
    case key: True
    show ?thesis
    proof (cases "complete_rule rule")
      case False
      with key show ?thesis by (rule policy_entries_incomplete)
    next
      case True
      with Cons.prems have n: "\<not> list_all complete_rule rules" by simp
      from policy_entries_complete[OF key True, of rules es] obtain e where
        "policy_entries (rule # rules) es = policy_entries rules (es @ [e])"
        by blast
      with Cons.IH[OF n] show ?thesis by simp
    qed
  qed
qed

lemma policy_entries_Inr:
  assumes "policy_entries rules es = Inr es'"
  shows "list_all complete_rule rules \<and> es' = es @ List.map_filter rule_entry rules"
proof (cases "list_all complete_rule rules")
  case True
  with assms policy_entries_ok[OF True, of es] show ?thesis by simp
next
  case False
  with assms policy_entries_error[OF False, of es] show ?thesis by simp
qed

lemma create_policy_txn_Inr:
  assumes "create_policy_txn X pubkey sk pname rules now = Inr txn"
  shows "\<exists>es. policy_entries rules [] = Inr es
          \<and> Transaction.payload txn
              = IdentityPayload_SerializeToString X
                  \<lparr>IdentityPayload.type = POLICY,
                   data = Policy_SerializeToString X \<lparr>Policy.name = pname, entries = es\<rparr>\<rparr>
          \<and> Transaction.header txn
              = TransactionHeader_SerializeToString X
                  \<lparr>TransactionHeader.signer_pubkey = pubkey,
                   family_name = ''sawtooth_identity'',
                   family_version = ''1.0'',
                   inputs = [policy_to_address pname],
                   outputs = [policy_to_address pname],
                   dependencies = [],
                   payload_encoding = ''application/protobuf'',
                   payload_sha512 = sha512_hex (Transaction.payload txn),
                   batcher_pubkey = pubkey,
                   nonce = now\<rparr>
          \<and> Transaction.header_signature txn = sign X (Transaction.header txn) sk"
  using assms
  by (auto simp: create_policy_txn_def Let_def split: sum.splits)

lemma create_role_txn_Inr:
  "\<exists>ra txn. role_to_address rname = Inr ra
     \<and> create_role_txn X pubkey sk rname pname now = Inr txn
     \<and> Transaction.payload txn
         = IdentityPayload_SerializeToString X
             \<lparr>IdentityPayload.type = ROLE,
              data = Role_SerializeToString X \<lparr>Role.name = rname, policy_name = pname\<rparr>\<rparr>
     \<and> Transaction.header txn
         = TransactionHeader_SerializeToString X
             \<lparr>TransactionHeader.signer_pubkey = pubkey,
              family_name = ''sawtooth_identity'',
              family_version = ''1.0'',
              inputs = [policy_to_address pname, ra],
              outputs = [ra],
              dependencies = [],
              payload_encoding = ''application/protobuf'',
              payload_sha512 = sha512_hex (Transaction.payload txn),
              batcher_pubkey = pubkey,
              nonce = now\<rparr>
     \<and> Transaction.header_signature txn = sign X (Transaction.header txn) sk"
proof -
  obtain ra where "role_to_address rname = Inr ra"
    using role_address_70[of rname] by blast
  then show ?thesis
    by (simp add: create_role_txn_def Let_def)
qed


section \<open>Transactions, batches and rules\<close>

lemma sample_rules_complete:
  "list_all complete_rule [''PERMIT_KEY 02ab'', ''audit everything'', ''DENY_KEY 03cd'']"
  by code_simp

lemma sample_rules_incomplete:
  "\<not> list_all complete_rule [''PERMIT_KEY 02ab'', ''DENY_KEY'']"
  by code_simp

lemma create_policy_txn_total:
  assumes "list_all complete_rule rules"
  shows "\<exists>txn. create_policy_txn X pubkey sk pname rules now = Inr txn"
  using policy_entries_ok[OF assms, of "[]"]
  by (simp add: create_policy_txn_def Let_def)

lemma create_policy_txn_error:
  assumes "\<not> list_all complete_rule rules"
  shows "create_policy_txn X pubkey sk pname rules now = Inl IndexError"
  using policy_entries_error[OF assms, of "[]"]
  by (simp add: create_policy_txn_def)

text \<open>
  C3. A transaction built by \<open>_create_policy_txn\<close> or \<open>_create_role_txn\<close> carries the
  serialisation of a header with family \<open>sawtooth_identity\<close>, version \<open>1.0\<close>, no
  dependencies and the given public key as both signer and batcher. A policy
  transaction reads and writes the policy address; a role transaction reads the address of
  the referenced policy and the role address, and writes the role address.
\<close>

theorem transaction_header_fields:
  "(create_policy_txn X pubkey sk pname rules now = Inr txn \<longrightarrow>
      (\<exists>h. Transaction.header txn = TransactionHeader_SerializeToString X h
         \<and> family_name h = ''sawtooth_identity'' \<and> family_version h = ''1.0''
         \<and> dependencies h = []
         \<and> TransactionHeader.signer_pubkey h = pubkey \<and> batcher_pubkey h = pubkey
         \<and> inputs h = [policy_to_address pname]
         \<and> outputs h = [policy_to_address pname]))
   \<and> (create_role_txn X pubkey sk rname pname now = Inr txn' \<longrightarrow>
      (\<exists>h ra. role_to_address rname = Inr ra
         \<and> Transaction.header txn' = TransactionHeader_SerializeToString X h
         \<and> family_name h = ''sawtooth_identity'' \<and> family_version h = ''1.0''
         \<and> dependencies h = []
         \<and> TransactionHeader.signer_pubkey h = pubkey \<and> batcher_pubkey h = pubkey
         \<and> inputs h = [policy_to_address pname, ra]
         \<and> outputs h = [ra]))"
proof (intro conjI impI)
  assume "create_policy_txn X pubkey sk pname rules now = Inr txn"
  from create_policy_txn_Inr[OF this] obtain h where
    "Transaction.header txn = TransactionHeader_SerializeToString X h"
    "h = \<lparr>TransactionHeader.signer_pubkey = pubkey,
          family_name = ''sawtooth_identity'', family_version = ''1.0'',
          inputs = [policy_to_address pname], outputs = [policy_to_address pname],
          dependencies = [], payload_encoding = ''application/protobuf'',
          payload_sha512 = sha512_hex (Transaction.payload txn),
          batcher_pubkey = pubkey, nonce = now\<rparr>"
    by blast
  then show "\<exists>h. Transaction.header txn = TransactionHeader_SerializeToString X h
         \<and> family_name h = ''sawtooth_identity'' \<and> family_version h = ''1.0''
         \<and> dependencies h = []
         \<and> TransactionHeader.signer_pubkey h = pubkey \<and> batcher_pubkey h = pubkey
         \<and> inputs h = [policy_to_address pname]
         \<and> outputs h = [policy_to_address pname]"
    by (intro exI[of _ h]) simp
next
  assume a: "create_role_txn X pubkey sk rname pname now = Inr txn'"
  from create_role_txn_Inr[of rname X pubkey sk pname now] a obtain ra h where
    "role_to_address rname = Inr ra"
    "Transaction.header txn' = TransactionHeader_SerializeToString X h"
    "h = \<lparr>TransactionHeader.signer_pubkey = pubkey,
          family_name = ''sawtooth_identity'', family_version = ''1.0'',
          inputs = [policy_to_address pname, ra], outputs = [ra],
          dependencies = [], payload_encoding = ''application/protobuf'',
          payload_sha512 = sha512_hex (Transaction.payload txn'),
          batcher_pubkey = pubkey, nonce = now\<rparr>"
    by auto
  then show "\<exists>h ra. role_to_address rname = Inr ra
         \<and> Transaction.header txn' = TransactionHeader_SerializeToString X h
         \<and> family_name h = ''sawtooth_identity'' \<and> family_version h = ''1.0''
         \<and> dependencies h = []
         \<and> TransactionHeader.signer_pubkey h = pubkey \<and> batcher_pubkey h = pubkey
         \<and> inputs h = [policy_to_address pname, ra]
         \<and> outputs h = [ra]"
    by (intro exI[of _ h] exI[of _ ra]) simp
qed

theorem transaction_header_fields_witness:
  "\<exists>txn txn'.
     create_policy_txn sample_extern ''02ff'' ''key'' ''admins''
         [''PERMIT_KEY 02ab'', ''audit everything'', ''DENY_KEY 03cd''] [] = Inr txn
     \<and> create_role_txn sample_extern ''02ff'' ''key'' ''transactor.batch_signer''
         ''admins'' [] = Inr txn'
     \<and> (\<exists>h. Transaction.header txn = TransactionHeader_SerializeToString sample_extern h
          \<and> family_name h = ''sawtooth_identity''
          \<and> TransactionHeader.signer_pubkey h = batcher_pubkey h
          \<and> inputs h = [policy_to_address ''admins''] \<and> outputs h = inputs h)
     \<and> (\<exists>h ra. role_to_address ''transactor.batch_signer'' = Inr ra
          \<and> Transaction.header txn' = TransactionHeader_SerializeToString sample_extern h
          \<and> inputs h = [policy_to_address ''admins'', ra] \<and> outputs h = [ra])"
proof -
  obtain txn where t: "create_policy_txn sample_extern ''02ff'' ''key'' ''admins''
         [''PERMIT_KEY 02ab'', ''audit everything'', ''DENY_KEY 03cd''] [] = Inr txn"
    using create_policy_txn_total[OF sample_rules_complete] by blast
  obtain txn' where t': "create_role_txn sample_extern ''02ff'' ''key''
         ''transactor.batch_signer'' ''admins'' [] = Inr txn'"
    using create_role_txn_Inr[of "''transactor.batch_signer''" sample_extern] by blast
  from transaction_header_fields[of sample_extern "''02ff''" "''key''" "''admins''"
      "[''PERMIT_KEY 02ab'', ''audit everything'', ''DENY_KEY 03cd'']" "[]" txn
      "''transactor.batch_signer''" txn'] t t'
  show ?thesis by (intro exI[of _ txn] exI[of _ txn']) auto
qed

text \<open>
  C4. The batch built from a list of transactions keeps the list as it is, and its header
  is the serialisation of the signer's key with the header signatures of the
  transactions, in the order given.
\<close>

theorem batch_transaction_ids:
  "Batch.transactions (create_batch X pubkey sk txns) = txns
   \<and> Batch.header (create_batch X pubkey sk txns)
       = BatchHeader_SerializeToString X
           \<lparr>BatchHeader.signer_pubkey = pubkey,
            transaction_ids = map Transaction.header_signature txns\<rparr>
   \<and> length (map Transaction.header_signature txns) = length txns
   \<and> Batch.header_signature (create_batch X pubkey sk txns)
       = sign X (Batch.header (create_batch X pubkey sk txns)) sk"
  by (simp add: create_batch_def Let_def)

text \<open>
  C5. The header of a built transaction records, as \<open>payload_sha512\<close>, the SHA-512 digest
  in hexadecimal of the payload bytes the transaction carries.
\<close>

theorem payload_sha512_matches:
  "(create_policy_txn X pubkey sk pname rules now = Inr txn \<longrightarrow>
      (\<exists>h. Transaction.header txn = TransactionHeader_SerializeToString X h
         \<and> payload_sha512 h = sha512_hex (Transaction.payload txn)
         \<and> length (payload_sha512 h) = 128 \<and> is_hex (payload_sha512 h)))
   \<and> (create_role_txn X pubkey sk rname pname now = Inr txn' \<longrightarrow>
      (\<exists>h. Transaction.header txn' = TransactionHeader_SerializeToString X h
         \<and> payload_sha512 h = sha512_hex (Transaction.payload txn')
         \<and> length (payload_sha512 h) = 128 \<and> is_hex (payload_sha512 h)))"
proof (intro conjI impI)
  assume "create_policy_txn X pubkey sk pname rules now = Inr txn"
  from create_policy_txn_Inr[OF this] obtain h where
    "Transaction.header txn = TransactionHeader_SerializeToString X h"
    "payload_sha512 h = sha512_hex (Transaction.payload txn)"
    by (metis TransactionHeader.select_convs(8))
  then show "\<exists>h. Transaction.header txn = TransactionHeader_SerializeToString X h
         \<and> payload_sha512 h = sha512_hex (Transaction.payload txn)
         \<and> length (payload_sha512 h) = 128 \<and> is_hex (payload_sha512 h)"
    by (intro exI[of _ h]) simp
next
  assume a: "create_role_txn X pubkey sk rname pname now = Inr txn'"
  from create_role_txn_Inr[of rname X pubkey sk pname now] a obtain h where
    "Transaction.header txn' = TransactionHeader_SerializeToString X h"
    "payload_sha512 h = sha512_hex (Transaction.payload txn')"
    by (metis TransactionHeader.select_convs(8) sum.inject(2))
  then show "\<exists>h. Transaction.header txn' = TransactionHeader_SerializeToString X h
         \<and> payload_sha512 h = sha512_hex (Transaction.payload txn')
         \<and> length (payload_sha512 h) = 128 \<and> is_hex (payload_sha512 h)"
    by (intro exI[of _ h]) simp
qed

theorem payload_sha512_matches_witness:
  "\<exists>txn txn'.
     create_policy_txn sample_extern ''02ff'' ''key'' ''admins''
         [''PERMIT_KEY 02ab'', ''audit everything'', ''DENY_KEY 03cd''] [] = Inr txn
     \<and> create_role_txn sample_extern ''02ff'' ''key'' ''transactor'' ''admins'' [] = Inr txn'
     \<and> (\<exists>h. Transaction.header txn = TransactionHeader_SerializeToString sample_extern h
          \<and> payload_sha512 h = sha512_hex (Transaction.payload txn))
     \<and> (\<exists>h. Transaction.header txn' = TransactionHeader_SerializeToString sample_extern h
          \<and> payload_sha512 h = sha512_hex (Transaction.payload txn'))"
proof -
  obtain txn where t: "create_policy_txn sample_extern ''02ff'' ''key'' ''admins''
         [''PERMIT_KEY 02ab'', ''audit everything'', ''DENY_KEY 03cd''] [] = Inr txn"
    using create_policy_txn_total[OF sample_rules_complete] by blast
  obtain txn' where t': "create_role_txn sample_extern ''02ff'' ''key''
         ''transactor'' ''admins'' [] = Inr txn'"
    using create_role_txn_Inr[of "''transactor''" sample_extern] by blast
  from payload_sha512_matches[of sample_extern "''02ff''" "''key''" "''admins''"
      "[''PERMIT_KEY 02ab'', ''audit everything'', ''DENY_KEY 03cd'']" "[]" txn
      "''transactor''" txn'] t t'
  show ?thesis by (intro exI[of _ txn] exI[of _ txn']) auto
qed

text \<open>
  C7. A rule whose first space-separated token is neither \<open>PERMIT_KEY\<close> nor \<open>DENY_KEY\<close>
  is skipped: it adds no entry and raises nothing, so the rules without it give the same
  result. When the policy is built, its entries are those of the key rules, in the order
  of the rules.
\<close>

theorem other_rules_skipped:
  "(\<not> is_key_rule rule \<longrightarrow>
       policy_entries (rule # rules) es = policy_entries rules es)
   \<and> policy_entries rules es = policy_entries (filter is_key_rule rules) es
   \<and> create_policy_txn X pubkey sk pname rules now
       = create_policy_txn X pubkey sk pname (filter is_key_rule rules) now
   \<and> (create_policy_txn X pubkey sk pname rules now = Inr txn \<longrightarrow>
        Transaction.payload txn
          = IdentityPayload_SerializeToString X
              \<lparr>IdentityPayload.type = POLICY,
               data = Policy_SerializeToString X
                 \<lparr>Policy.name = pname,
                  entries = List.map_filter rule_entry (filter is_key_rule rules)\<rparr>\<rparr>)"
proof (intro conjI impI)
  assume "\<not> is_key_rule rule"
  then show "policy_entries (rule # rules) es = policy_entries rules es"
    by (rule policy_entries_skip)
next
  show "policy_entries rules es = policy_entries (filter is_key_rule rules) es"
    by (rule policy_entries_filter)
next
  show "create_policy_txn X pubkey sk pname rules now
       = create_policy_txn X pubkey sk pname (filter is_key_rule rules) now"
    using policy_entries_filter[of rules "[]"] by (simp add: create_policy_txn_def)
next
  assume a: "create_policy_txn X pubkey sk pname rules now = Inr txn"
  from create_policy_txn_Inr[OF a] obtain es' where
    e: "policy_entries rules [] = Inr es'"
    and p: "Transaction.payload txn
              = IdentityPayload_SerializeToString X
                  \<lparr>IdentityPayload.type = POLICY,
                   data = Policy_SerializeToString X
                     \<lparr>Policy.name = pname, entries = es'\<rparr>\<rparr>"
    by blast
  from e have "policy_entries (filter is_key_rule rules) [] = Inr es'"
    using policy_entries_filter[of rules "[]"] by simp
  from policy_entries_Inr[OF this]
  have "es' = List.map_filter rule_entry (filter is_key_rule rules)" by simp
  with p show "Transaction.payload txn
          = IdentityPayload_SerializeToString X
              \<lparr>IdentityPayload.type = POLICY,
               data = Policy_SerializeToString X
                 \<lparr>Policy.name = pname,
                  entries = List.map_filter rule_entry (filter is_key_rule rules)\<rparr>\<rparr>"
    by simp
qed

theorem other_rules_skipped_witness:
  "\<not> is_key_rule ''audit everything''
   \<and> policy_entries [''PERMIT_KEY 02ab'', ''audit everything'', ''DENY_KEY 03cd''] []
       = Inr [\<lparr>Entry.type = PERMIT_KEY, key = ''02ab''\<rparr>,
              \<lparr>Entry.type = DENY_KEY, key = ''03cd''\<rparr>]
   \<and> (\<exists>txn. create_policy_txn sample_extern ''02ff'' ''key'' ''admins''
         [''PERMIT_KEY 02ab'', ''audit everything'', ''DENY_KEY 03cd''] [] = Inr txn
        \<and> Transaction.payload txn
          = IdentityPayload_SerializeToString sample_extern
              \<lparr>IdentityPayload.type = POLICY,
               data = Policy_SerializeToString sample_extern
                 \<lparr>Policy.name = ''admins'',
                  entries = [\<lparr>Entry.type = PERMIT_KEY, key = ''02ab''\<rparr>,
                             \<lparr>Entry.type = DENY_KEY, key = ''03cd''\<rparr>]\<rparr>\<rparr>)"
proof -
  have k: "\<not> is_key_rule ''audit everything''" by code_simp
  have f: "List.map_filter rule_entry
             (filter is_key_rule [''PERMIT_KEY 02ab'', ''audit everything'', ''DENY_KEY 03cd''])
           = [\<lparr>Entry.type = PERMIT_KEY, key = ''02ab''\<rparr>,
              \<lparr>Entry.type = DENY_KEY, key = ''03cd''\<rparr>]"
    by code_simp
  have e: "policy_entries [''PERMIT_KEY 02ab'', ''audit everything'', ''DENY_KEY 03cd''] []
       = Inr [\<lparr>Entry.type = PERMIT_KEY, key = ''02ab''\<rparr>,
              \<lparr>Entry.type = DENY_KEY, key = ''03cd''\<rparr>]"
    by code_simp
  obtain txn where t: "create_policy_txn sample_extern ''02ff'' ''key'' ''admins''
         [''PERMIT_KEY 02ab'', ''audit everything'', ''DENY_KEY 03cd''] [] = Inr txn"
    using create_policy_txn_total[OF sample_rules_complete] by blast
  from other_rules_skipped[where rule = "''audit everything''" and es = "[]"
      and rules = "[''PERMIT_KEY 02ab'', ''audit everything'', ''DENY_KEY 03cd'']"
      and X = sample_extern and pubkey = "''02ff''" and sk = "''key''"
      and pname = "''admins''" and now = "[]" and txn = txn] t
  have "Transaction.payload txn
          = IdentityPayload_SerializeToString sample_extern
              \<lparr>IdentityPayload.type = POLICY,
               data = Policy_SerializeToString sample_extern
                 \<lparr>Policy.name = ''admins'',
                  entries = [\<lparr>Entry.type = PERMIT_KEY, key = ''02ab''\<rparr>,
                             \<lparr>Entry.type = DENY_KEY, key = ''03cd''\<rparr>]\<rparr>\<rparr>"
    by (simp only: f)
  with k e t show ?thesis by blast
qed

text \<open>
  C9. A key rule is indexed at position 1. When some key rule has no second token, as the
  rules \<open>PERMIT_KEY\<close> and \<open>DENY_KEY\<close> alone, building the policy transaction ends in
  \<open>IndexError\<close>: no transaction and no signature come back, whatever the signing function
  is, and the rule is not skipped. When every key rule has a second token, a transaction
  is built.
\<close>

theorem incomplete_key_rule_raises:
  "(\<not> list_all complete_rule rules \<longrightarrow>
       create_policy_txn X pubkey sk pname rules now = Inl IndexError)
   \<and> (list_all complete_rule rules \<longrightarrow>
       (\<exists>txn. create_policy_txn X pubkey sk pname rules now = Inr txn))
   \<and> is_key_rule ''PERMIT_KEY'' \<and> \<not> complete_rule ''PERMIT_KEY''
   \<and> is_key_rule ''DENY_KEY'' \<and> \<not> complete_rule ''DENY_KEY''
   \<and> create_policy_txn X pubkey sk pname [''PERMIT_KEY''] now = Inl IndexError
   \<and> create_policy_txn X pubkey sk pname [''DENY_KEY''] now = Inl IndexError
   \<and> policy_entries [''PERMIT_KEY''] [] \<noteq> policy_entries [] []"
proof -
  have p: "is_key_rule ''PERMIT_KEY''" "\<not> complete_rule ''PERMIT_KEY''"
    by code_simp+
  have d: "is_key_rule ''DENY_KEY''" "\<not> complete_rule ''DENY_KEY''"
    by code_simp+
  have e: "policy_entries [''PERMIT_KEY''] [] \<noteq> policy_entries [] []"
    using policy_entries_incomplete[OF p, of "[]" "[]"] by simp
  from p d e show ?thesis
    by (simp add: create_policy_txn_error create_policy_txn_total)
qed

theorem incomplete_key_rule_raises_witness:
  "\<not> list_all complete_rule [''PERMIT_KEY 02ab'', ''DENY_KEY'']
   \<and> create_policy_txn sample_extern ''02ff'' ''key'' ''admins''
        [''PERMIT_KEY 02ab'', ''DENY_KEY''] [] = Inl IndexError
   \<and> list_all complete_rule [''PERMIT_KEY 02ab'', ''audit everything'', ''DENY_KEY 03cd'']
   \<and> (\<exists>txn. create_policy_txn sample_extern ''02ff'' ''key'' ''admins''
         [''PERMIT_KEY 02ab'', ''audit everything'', ''DENY_KEY 03cd''] [] = Inr txn)"
  using incomplete_key_rule_raises[of "[''PERMIT_KEY 02ab'', ''DENY_KEY'']" sample_extern
      "''02ff''" "''key''" "''admins''" "[]"]
    incomplete_key_rule_raises[of
      "[''PERMIT_KEY 02ab'', ''audit everything'', ''DENY_KEY 03cd'']" sample_extern
      "''02ff''" "''key''" "''admins''" "[]"]
    sample_rules_complete sample_rules_incomplete
  by blast


section \<open>Listings\<close>

lemma take_1_foldl_snoc:
  "take (Suc 0) (foldl (\<lambda>out e. out @ [g e]) (x # xs) es) = [x]"
  by (induction es arbitrary: xs) simp_all

lemma csv_policy_first: "take (Suc 0) (csv_policy p) = [Policy.name p]"
  by (simp only: csv_policy_def take_1_foldl_snoc)

lemma print_policy_begins:
  "take (length (Policy.name p)) (print_policy w p) = Policy.name p"
  by (simp add: print_policy_def Let_def)

lemma print_role_begins:
  "take (length (Role.name r)) (print_role w r) = Role.name r"
  by (simp add: print_role_def Let_def)

lemma keys_dict_set: "fst ` set (dict_set d k v) = insert k (fst ` set d)"
  by (induction d k v rule: dict_set.induct) auto

lemma distinct_dict_set:
  "distinct (map fst d) \<Longrightarrow> distinct (map fst (dict_set d k v))"
  by (induction d k v rule: dict_set.induct) (auto simp: keys_dict_set)

lemma keys_foldl_dict_set:
  "fst ` set (foldl (\<lambda>d p. dict_set d (kf p) (vf p)) d0 ps)
     = fst ` set d0 \<union> kf ` set ps"
  by (induction ps arbitrary: d0) (simp_all add: keys_dict_set)

lemma distinct_foldl_dict_set:
  "distinct (map fst d0) \<Longrightarrow>
   distinct (map fst (foldl (\<lambda>d p. dict_set d (kf p) (vf p)) d0 ps))"
  by (induction ps arbitrary: d0) (auto simp: distinct_dict_set)

lemma sorted_keys_unique:
  assumes "sorted ns" "distinct (map fst d)" "set (map fst d) = set ns"
  shows "map fst (sort_key fst d) = remdups ns"
proof (rule sorted_distinct_set_unique)
  show "sorted (map fst (sort_key fst d))" by simp
  have "mset (map fst (sort_key fst d)) = mset (map fst d)" by simp
  then show "distinct (map fst (sort_key fst d))"
    using assms(2) by (metis mset_eq_imp_distinct_iff)
  show "sorted (remdups ns)" using assms(1) by simp
  show "distinct (remdups ns)" by simp
  show "set (map fst (sort_key fst d)) = set (remdups ns)"
    using assms(3) by simp
qed

lemma snapshot_policies_keys:
  assumes "sorted (map Policy.name ps)"
  shows "map fst (sort_key fst (snapshot_policies ps)) = remdups (map Policy.name ps)"
proof (rule sorted_keys_unique[OF assms])
  show "distinct (map fst (snapshot_policies ps))"
    unfolding snapshot_policies_def by (rule distinct_foldl_dict_set) simp
  show "set (map fst (snapshot_policies ps)) = set (map Policy.name ps)"
    unfolding snapshot_policies_def by (simp add: keys_foldl_dict_set)
qed

lemma snapshot_roles_keys:
  assumes "sorted (map Role.name rs)"
  shows "map fst (sort_key fst (snapshot_roles rs)) = remdups (map Role.name rs)"
proof (rule sorted_keys_unique[OF assms])
  show "distinct (map fst (snapshot_roles rs))"
    unfolding snapshot_roles_def by (rule distinct_foldl_dict_set) simp
  show "set (map fst (snapshot_roles rs)) = set (map Role.name rs)"
    unfolding snapshot_roles_def by (simp add: keys_foldl_dict_set)
qed

lemma alpha_before_zeta:
  assumes "sorted ns" "i < length ns" "j < length ns" "ns ! i = ''alpha''" "ns ! j = ''zeta''"
  shows "i < j"
proof (rule ccontr)
  assume "\<not> i < j"
  then have "j \<le> i" by simp
  with assms(1,2) have "ns ! j \<le> ns ! i" by (simp add: sorted_nth_mono)
  with assms(4,5) show False by simp
qed

lemma policy_listing:
  assumes "do_identity_policy_list X head svs fmt w = Inr out"
  shows "\<exists>acc. collect_policies X svs [] = Inr acc
           \<and> presents (map Policy.name (sort_key Policy.name acc)) out"
proof -
  from assms obtain acc where acc: "collect_policies X svs [] = Inr acc"
    by (auto simp: do_identity_policy_list_def split: sum.splits)
  let ?ps = "sort_key Policy.name acc"
  have s: "sorted (map Policy.name ?ps)" by simp
  have "presents (map Policy.name ?ps) out"
    using assms acc snapshot_policies_keys[OF s]
    by (auto simp: do_identity_policy_list_def Let_def list_all2_map1 list_all2_map2
          list_all2_same print_policy_begins csv_policy_first o_def split: if_splits)
  with acc show ?thesis by blast
qed

lemma role_listing:
  assumes "do_identity_role_list X head svs fmt w = Inr out"
  shows "\<exists>acc. collect_roles X svs [] = Inr acc
           \<and> presents (map Role.name (sort_key Role.name acc)) out"
proof -
  from assms obtain acc where acc: "collect_roles X svs [] = Inr acc"
    by (auto simp: do_identity_role_list_def split: sum.splits)
  let ?rs = "sort_key Role.name acc"
  have s: "sorted (map Role.name ?rs)" by simp
  have "presents (map Role.name ?rs) out"
    using assms acc snapshot_roles_keys[OF s]
    by (auto simp: do_identity_role_list_def Let_def list_all2_map1 list_all2_map2
          list_all2_same print_role_begins o_def split: if_splits)
  with acc show ?thesis by blast
qed

text \<open>
  C10. A listing that succeeds presents the policies (or roles) decoded from the state
  blobs, the same ones with the same multiplicity, in ascending order of their names,
  whatever the output format and the order in which the blobs were fetched. In
  particular a name \<open>alpha\<close> always comes before a name \<open>zeta\<close>.
\<close>

theorem listing_sorted_by_name:
  "(do_identity_policy_list X head svs fmt w = Inr out \<longrightarrow>
      (\<exists>acc. collect_policies X svs [] = Inr acc
         \<and> mset (sort_key Policy.name acc) = mset acc
         \<and> sorted (map Policy.name (sort_key Policy.name acc))
         \<and> presents (map Policy.name (sort_key Policy.name acc)) out))
   \<and> (do_identity_role_list X head svs fmt w = Inr out' \<longrightarrow>
      (\<exists>acc. collect_roles X svs [] = Inr acc
         \<and> mset (sort_key Role.name acc) = mset acc
         \<and> sorted (map Role.name (sort_key Role.name acc))
         \<and> presents (map Role.name (sort_key Role.name acc)) out'))
   \<and> (sorted ns \<and> i < length ns \<and> j < length ns
        \<and> ns ! i = ''alpha'' \<and> ns ! j = ''zeta'' \<longrightarrow> i < j)"
  using policy_listing[of X head svs fmt w out] role_listing[of X head svs fmt w out']
    alpha_before_zeta[of ns i j]
  by auto

theorem listing_sorted_by_name_witness:
  "do_identity_policy_list sample_extern ''head'' [''zeta'', ''alpha''] ''csv'' 80
     = Inr (Csv [[''POLICY NAME'', ''ENTRIES''], [''alpha''], [''zeta'']])
   \<and> do_identity_role_list sample_extern ''head'' [''zeta'', ''alpha''] ''default'' 80
     = Inr (Printed [''alpha: p'', ''zeta: p''])
   \<and> (\<exists>acc. collect_policies sample_extern [''zeta'', ''alpha''] [] = Inr acc
         \<and> sorted (map Policy.name (sort_key Policy.name acc))
         \<and> presents (map Policy.name (sort_key Policy.name acc))
              (Csv [[''POLICY NAME'', ''ENTRIES''], [''alpha''], [''zeta'']]))
   \<and> (\<exists>acc. collect_roles sample_extern [''zeta'', ''alpha''] [] = Inr acc
         \<and> sorted (map Role.name (sort_key Role.name acc))
         \<and> presents (map Role.name (sort_key Role.name acc))
              (Printed [''alpha: p'', ''zeta: p'']))
   \<and> sorted [''alpha'', ''zeta''] \<and> (0::nat) < 1"
proof -
  have p: "do_identity_policy_list sample_extern ''head'' [''zeta'', ''alpha''] ''csv'' 80
     = Inr (Csv [[''POLICY NAME'', ''ENTRIES''], [''alpha''], [''zeta'']])"
    by code_simp
  have r: "do_identity_role_list sample_extern ''head'' [''zeta'', ''alpha''] ''default'' 80
     = Inr (Printed [''alpha: p'', ''zeta: p''])"
    by code_simp
  have s: "sorted [''alpha'', ''zeta'']" by simp
  from listing_sorted_by_name[where X = sample_extern and head = "''head''"
      and svs = "[''zeta'', ''alpha'']" and fmt = "''csv''" and w = 80
      and out = "Csv [[''POLICY NAME'', ''ENTRIES''], [''alpha''], [''zeta'']]"
      and ns = "[''alpha'', ''zeta'']" and i = 0 and j = 1] p s
  have 1: "\<exists>acc. collect_policies sample_extern [''zeta'', ''alpha''] [] = Inr acc
         \<and> sorted (map Policy.name (sort_key Policy.name acc))
         \<and> presents (map Policy.name (sort_key Policy.name acc))
              (Csv [[''POLICY NAME'', ''ENTRIES''], [''alpha''], [''zeta'']])"
    and 2: "(0::nat) < 1"
    by auto
  from listing_sorted_by_name[where X = sample_extern and head = "''head''"
      and svs = "[''zeta'', ''alpha'']" and fmt = "''default''" and w = 80
      and out' = "Printed [''alpha: p'', ''zeta: p'']"] r
  have 3: "\<exists>acc. collect_roles sample_extern [''zeta'', ''alpha''] [] = Inr acc
         \<and> sorted (map Role.name (sort_key Role.name acc))
         \<and> presents (map Role.name (sort_key Role.name acc))
              (Printed [''alpha: p'', ''zeta: p''])"
    by auto
  from p r 1 2 3 s show ?thesis by blast
qed


end
